theory Spec2Isabelle
  imports Main "HOL-Library.Multiset" "HOL-Library.Option_ord" "HOL-Library.Product_Lexorder"
    "HOL-Library.Sublist"
begin

section \<open>The identity resolver of the notebooks\<close>

text \<open>
  Every notebook starts with the same cell:
  \<^verbatim>\<open>
  user_name = w.current_user.me().user_name
  user_id = w.current_user.me().user_name.split('@')[0]
  ...
  catalog_name = user_id
  \<close>
  The login is a Python string; \<open>split\<close> with a one-character separator cuts at every
  occurrence of the separator and always returns at least one piece; \<open>[0]\<close> raises
  IndexError on an empty list.
\<close>

datatype error =
    IndexError
  | AuthenticationError
  | NotFoundError
  | SourceReadError
  | PermissionDeniedError
  | PlatformError

type_synonym name = string

fun split_py :: "char \<Rightarrow> string \<Rightarrow> string list" where
  "split_py sep [] = [[]]"
| "split_py sep (c # cs) =
     (if c = sep then [] # split_py sep cs
      else (case split_py sep cs of
              [] \<Rightarrow> [[c]]
            | w # ws \<Rightarrow> (c # w) # ws))"

definition index0 :: "'a list \<Rightarrow> error + 'a" where
  "index0 xs = (case xs of [] \<Rightarrow> Inl IndexError | x # _ \<Rightarrow> Inr x)"

definition user_id :: "string \<Rightarrow> error + name" where
  "user_id user_name = index0 (split_py (CHR ''@'') user_name)"

definition catalog_name :: "string \<Rightarrow> error + name" where
  "catalog_name user_name = user_id user_name"

definition schema_name :: name where
  "schema_name = ''sales''"

section \<open>The SQL statements of the notebooks\<close>

text \<open>
  Apart from the identity cell, a notebook is a fixed sequence of SQL statements
  (\<^verbatim>\<open>spark.sql(f"...")\<close> and \<^verbatim>\<open>%sql\<close> cells) with the catalog name interpolated.
  The statements are modelled by their abstract syntax. An object reference is the list
  of its dot-separated parts as the statement writes it: \<^verbatim>\<open>customers\<close> is
  \<open>[''customers'']\<close>, \<^verbatim>\<open>{catalog_name}.{schema_name}.sales_fact\<close> is
  \<open>[cat, schema_name, ''sales_fact'']\<close>.

  The notebooks interpolate the catalog name in two ways. Inside back quotes
  (\<^verbatim>\<open>USE CATALOG `{catalog_name}`\<close>) the text is the name. Without back quotes
  (\<^verbatim>\<open>SHOW GRANTS ON CATALOG {catalog_name}\<close>) the text goes through the SQL lexer
  with the rest of the statement: it is the name it spells only when it is a regular
  identifier, made of letters, digits and underscores and not of the shape of a numeric
  literal (\<^verbatim>\<open>123\<close>, \<^verbatim>\<open>1e5\<close>, \<^verbatim>\<open>12L\<close>); with any other text, \<^verbatim>\<open>john-doe\<close> or
  \<^verbatim>\<open>john.doe\<close> for instance, the statement is rejected. A statement that interpolates
  without back quotes is wrapped in \<open>Unquoted\<close>, which lists the texts it interpolates
  that way. Reserved words are not enforced on identifiers.
\<close>

type_synonym principal = string
type_synonym ref = "name list"
type_synonym table_id = string
type_synonym sql_string = "string option"

datatype object_kind = CATALOG | SCHEMA | TABLE | VOLUME | FUNCTION

datatype securable =
    Catalog name
  | Schema name name
  | Table name name name
  | Volume name name name
  | Function name name name

datatype privilege = USE_CATALOG | BROWSE | USE_SCHEMA | SELECT | READ_VOLUME

datatype create_mode = Plain | OrReplace | IfNotExists

datatype table_format = DELTA | ICEBERG

datatype source = read_files string | select_from "ref list"

datatype policy_kind = ROW_FILTER | COLUMN_MASK

datatype column_match = hasTag string | hasTagValue string string

record session =
  login :: principal
  account_groups :: "principal set"

datatype udf =
    RowPredicate "session \<Rightarrow> sql_string \<Rightarrow> bool option"
  | ColumnTransform "session \<Rightarrow> sql_string \<Rightarrow> sql_string"

datatype stmt =
    UseCatalog name
  | UseSchema name
  | CreateCatalog create_mode name string
  | CreateSchema create_mode ref string
  | CreateVolume create_mode ref string
  | CreateTableAs create_mode ref table_format source
  | DropTable ref
  | UndropTable ref
  | UndropTableWithId string
  | Grant privilege object_kind ref principal
  | Revoke privilege object_kind ref principal
  | CreateFunction create_mode ref udf
  | CreatePolicy create_mode name ref string policy_kind ref principal column_match
  | SetTableTags ref "(string \<times> string) list"
  | SetColumnTags ref name "(string \<times> string) list"
  | Describe object_kind ref
  | ShowTblProperties ref
  | SelectStar ref
  | ShowGrants object_kind ref
  | ShowVolumes ref
  | ShowTables string
  | ShowTablesDropped
  | SelectCurrent
  | SelectInformationSchema string
  | Unquoted "string list" stmt

subsection \<open>Regular identifiers\<close>

definition is_digit :: "char \<Rightarrow> bool" where
  "is_digit c = (c \<in> set ''0123456789'')"

definition is_letter :: "char \<Rightarrow> bool" where
  "is_letter c = (c \<in> set ''abcdefghijklmnopqrstuvwxyzABCDEFGHIJKLMNOPQRSTUVWXYZ'')"

definition identifier_chars :: "string \<Rightarrow> bool" where
  "identifier_chars t =
     (t \<noteq> [] \<and> list_all (\<lambda>c. is_letter c \<or> is_digit c \<or> c = CHR ''_'') t)"

text \<open>
  The numeric literals among such words: digits, then an optional exponent (\<open>E\<close> and
  digits), then an optional type suffix (\<open>L\<close>, \<open>S\<close>, \<open>Y\<close> after an integer only;
  \<open>F\<close>, \<open>D\<close>, \<open>BD\<close> after either), in upper or lower case.
\<close>

definition decimal_suffixes :: "string list" where
  "decimal_suffixes = [[], ''F'', ''f'', ''D'', ''d'', ''BD'', ''bd'', ''Bd'', ''bD'']"

definition integer_suffixes :: "string list" where
  "integer_suffixes = [''L'', ''l'', ''S'', ''s'', ''Y'', ''y''] @ decimal_suffixes"

definition numeric_literal :: "string \<Rightarrow> bool" where
  "numeric_literal t =
     (takeWhile is_digit t \<noteq> []
      \<and> (dropWhile is_digit t \<in> set integer_suffixes
         \<or> (case dropWhile is_digit t of
               [] \<Rightarrow> False
             | c # r \<Rightarrow>
                 (c = CHR ''E'' \<or> c = CHR ''e'')
                 \<and> takeWhile is_digit r \<noteq> []
                 \<and> dropWhile is_digit r \<in> set decimal_suffixes)))"

definition plain_identifier :: "string \<Rightarrow> bool" where
  "plain_identifier t = (identifier_chars t \<and> \<not> numeric_literal t)"

subsection \<open>Lab 5: the two security functions\<close>

text \<open>
  \<^verbatim>\<open>
  CREATE OR REPLACE FUNCTION ...filter_nation(nation string)
  RETURN IF(IS_ACCOUNT_GROUP_MEMBER('geo'), true, nation IN ("UNITED STATES", "CANADA"))

  CREATE OR REPLACE FUNCTION ...mask_address(address string)
  RETURN IF(IS_ACCOUNT_GROUP_MEMBER('hr_admin'), address, "XXX Masked Address")
  \<close>
  A SQL string is nullable: \<open>None\<close> is NULL, and \<open>NULL IN (...)\<close> is NULL.
\<close>

definition IS_ACCOUNT_GROUP_MEMBER :: "session \<Rightarrow> principal \<Rightarrow> bool" where
  "IS_ACCOUNT_GROUP_MEMBER ses g = (g \<in> account_groups ses)"

definition sql_in :: "sql_string \<Rightarrow> string list \<Rightarrow> bool option" where
  "sql_in v xs = (case v of None \<Rightarrow> None | Some x \<Rightarrow> Some (x \<in> set xs))"

definition filter_nation :: "session \<Rightarrow> sql_string \<Rightarrow> bool option" where
  "filter_nation ses nation =
     (if IS_ACCOUNT_GROUP_MEMBER ses ''geo'' then Some True
      else sql_in nation [''UNITED STATES'', ''CANADA''])"

definition mask_address :: "session \<Rightarrow> sql_string \<Rightarrow> sql_string" where
  "mask_address ses address =
     (if IS_ACCOUNT_GROUP_MEMBER ses ''hr_admin'' then address
      else Some ''XXX Masked Address'')"

subsection \<open>The four notebooks as statement lists\<close>

definition lab1_statements :: "name \<Rightarrow> stmt list" where
  "lab1_statements cat =
    [ UseCatalog cat,
      Describe CATALOG [cat],
      SelectCurrent,
      SelectInformationSchema ''catalogs'',
      CreateSchema IfNotExists [''sales''] ''Sales schema to review customers and orders.'',
      UseSchema ''sales'',
      SelectCurrent,
      CreateVolume IfNotExists [''tracking'']
        ''Volume for checkpoint files and schema tracking'',
      ShowVolumes [cat, ''sales''] ]"

definition placeholder_table_id :: string where
  "placeholder_table_id = ''update_this_value_with_your_tableId''"

definition sales_fact_sources :: "name \<Rightarrow> ref list" where
  "sales_fact_sources cat =
    [ [''samples'', ''tpch'', ''lineitem''],
      [cat, schema_name, ''orders''],
      [cat, schema_name, ''customers''],
      [cat, schema_name, ''suppliers''] ]"

definition lab3_statements :: "name \<Rightarrow> stmt list" where
  "lab3_statements cat =
    [ UseCatalog cat,
      UseSchema schema_name,
      SelectCurrent,
      CreateTableAs OrReplace [''customers''] DELTA
        (read_files ''/Volumes/uc_wksp/gov_lab/files/customers/''),
      CreateTableAs OrReplace [''nations''] DELTA
        (read_files ''/Volumes/uc_wksp/gov_lab/files/nations/''),
      CreateTableAs OrReplace [''orders''] DELTA
        (read_files ''/Volumes/uc_wksp/gov_lab/files/orders/''),
      CreateTableAs OrReplace [''regions''] DELTA
        (read_files ''/Volumes/uc_wksp/gov_lab/files/regions/''),
      CreateTableAs OrReplace [''suppliers''] ICEBERG
        (read_files ''/Volumes/uc_wksp/gov_lab/files/suppliers/''),
      Unquoted [cat, schema_name]
        (CreateTableAs OrReplace [cat, schema_name, ''sales_fact''] DELTA
           (select_from (sales_fact_sources cat))),
      SelectStar [''customers''],
      SelectStar [''suppliers''],
      Describe TABLE [''customers''],
      Describe TABLE [''suppliers''],
      ShowTblProperties [''customers''],
      ShowTblProperties [''suppliers''],
      SelectInformationSchema ''tables'',
      DropTable [''customers''],
      ShowTables ''customers'',
      UndropTable [''customers''],
      ShowTables ''customers'',
      DropTable [''customers''],
      ShowTables ''customers'',
      ShowTablesDropped,
      UndropTableWithId placeholder_table_id,
      ShowTables ''customers'' ]"

definition lab4_statements :: "name \<Rightarrow> principal \<Rightarrow> stmt list" where
  "lab4_statements cat user_name =
    [ UseCatalog cat,
      UseSchema schema_name,
      SelectCurrent,
      Grant USE_CATALOG CATALOG [cat] user_name,
      Grant BROWSE CATALOG [cat] user_name,
      Grant USE_SCHEMA SCHEMA [cat, schema_name] ''account users'',
      Grant SELECT SCHEMA [cat, schema_name] ''account users'',
      Grant SELECT TABLE [cat, schema_name, ''sales_fact''] ''account users'',
      Grant READ_VOLUME VOLUME [cat, schema_name, ''tracking''] ''account users'',
      Unquoted [cat] (ShowGrants CATALOG [cat]),
      Unquoted [schema_name] (ShowGrants SCHEMA [schema_name]),
      Unquoted [cat, schema_name] (ShowGrants TABLE [cat, schema_name, ''sales_fact'']),
      Unquoted [cat, schema_name] (ShowGrants VOLUME [cat, schema_name, ''tracking'']),
      Revoke READ_VOLUME VOLUME [cat, schema_name, ''tracking''] ''account users'',
      Revoke SELECT TABLE [cat, schema_name, ''sales_fact''] ''account users'',
      Revoke SELECT SCHEMA [cat, schema_name] ''account users'',
      Revoke USE_SCHEMA SCHEMA [cat, schema_name] ''account users'',
      Revoke BROWSE CATALOG [cat] ''account users'',
      Revoke USE_CATALOG CATALOG [cat] ''account users'',
      SelectInformationSchema ''table_privileges'',
      SelectInformationSchema ''schema_privileges'' ]"

definition filter_nation_function :: "name \<Rightarrow> stmt" where
  "filter_nation_function cat =
     Unquoted [cat, schema_name]
       (CreateFunction OrReplace [cat, schema_name, ''filter_nation'']
          (RowPredicate filter_nation))"

definition mask_address_function :: "name \<Rightarrow> stmt" where
  "mask_address_function cat =
     Unquoted [cat, schema_name]
       (CreateFunction OrReplace [cat, schema_name, ''mask_address'']
          (ColumnTransform mask_address))"

definition nation_filter_policy :: "name \<Rightarrow> stmt" where
  "nation_filter_policy cat =
     Unquoted [cat, schema_name]
       (CreatePolicy Plain ''nation_filter'' [cat, schema_name]
          ''Filter out nations for non-HR users''
          ROW_FILTER [cat, schema_name, ''filter_nation''] ''account users''
          (hasTag ''uc_geo''))"

definition mask_address_policy :: "name \<Rightarrow> stmt" where
  "mask_address_policy cat =
     Unquoted [cat, schema_name]
       (CreatePolicy Plain ''mask_address'' [cat, schema_name]
          ''Mask PII address information.''
          COLUMN_MASK [cat, schema_name, ''mask_address''] ''account users''
          (hasTagValue ''uc_pii'' ''address''))"

definition lab5_statements :: "name \<Rightarrow> stmt list" where
  "lab5_statements cat =
    [ UseCatalog cat,
      UseSchema schema_name,
      SelectCurrent,
      SelectStar [cat, schema_name, ''customers''],
      SelectStar [cat, schema_name, ''suppliers''],
      filter_nation_function cat,
      mask_address_function cat,
      nation_filter_policy cat,
      mask_address_policy cat,
      Unquoted [cat, schema_name]
        (SetColumnTags [cat, schema_name, ''customers''] ''c_address''
           [(''uc_pii'', ''address'')]),
      Unquoted [cat, schema_name]
        (SetTableTags [cat, schema_name, ''suppliers''] [(''uc_geo'', [])]),
      Unquoted [cat, schema_name]
        (SetColumnTags [cat, schema_name, ''suppliers''] ''n_name'' [(''uc_geo'', [])]),
      SelectStar [cat, schema_name, ''customers''],
      SelectStar [cat, schema_name, ''suppliers''] ]"

section \<open>The catalog service\<close>

text \<open>
  The statements act on the metastore of the platform. Its state is modelled as far as the
  statements of the notebooks read or change it: the namespace objects with their
  comments, the tables with the identifier the platform gave them, the dropped tables
  (most recent first), the source paths that can be read, the functions, policies, tags
  and grants, and the session's current catalog and schema. The platform allocates table
  identifiers itself (\<open>fresh_id\<close> at \<open>next_id\<close>). Privilege checks on the acting user,
  who owns the catalog, are not part of the model.
\<close>

type_synonym table_key = "name \<times> name \<times> name"

record policy =
  p_comment :: string
  p_kind :: policy_kind
  p_function :: table_key
  p_to :: principal
  p_match :: column_match

record catalog_state =
  catalogs :: "name \<rightharpoonup> string"
  schemas :: "(name \<times> name) \<rightharpoonup> string"
  volumes :: "table_key \<rightharpoonup> string"
  tables :: "table_key \<rightharpoonup> table_id \<times> table_format"
  dropped :: "(table_id \<times> table_key \<times> table_format) list"
  fresh_id :: "nat \<Rightarrow> table_id"
  next_id :: nat
  files :: "string set"
  sql_functions :: "table_key \<rightharpoonup> udf"
  policies :: "(((name \<times> name) \<times> name) \<times> policy) list"
  tags :: "(securable \<times> name option \<times> string \<times> string) list"
  grants :: "(privilege \<times> securable \<times> principal) set"
  current_catalog :: name
  current_schema :: name

definition bind_result :: "error + 'a \<Rightarrow> ('a \<Rightarrow> error + 'b) \<Rightarrow> error + 'b" where
  "bind_result r f = (case r of Inl e \<Rightarrow> Inl e | Inr x \<Rightarrow> f x)"

definition require :: "bool \<Rightarrow> error \<Rightarrow> (error + 'b) \<Rightarrow> error + 'b" where
  "require ok e k = (if ok then k else Inl e)"

text \<open>Unqualified and partly qualified names resolve against the session's context.\<close>

fun qualify :: "ref \<Rightarrow> catalog_state \<Rightarrow> error + table_key" where
  "qualify [n] s = Inr (current_catalog s, current_schema s, n)"
| "qualify [sc, n] s = Inr (current_catalog s, sc, n)"
| "qualify [c, sc, n] s = Inr (c, sc, n)"
| "qualify r s = Inl PlatformError"

fun resolve :: "object_kind \<Rightarrow> ref \<Rightarrow> catalog_state \<Rightarrow> error + securable" where
  "resolve CATALOG r s = (case r of [c] \<Rightarrow> Inr (Catalog c) | _ \<Rightarrow> Inl PlatformError)"
| "resolve SCHEMA r s =
     (case r of
        [sc] \<Rightarrow> Inr (Schema (current_catalog s) sc)
      | [c, sc] \<Rightarrow> Inr (Schema c sc)
      | _ \<Rightarrow> Inl PlatformError)"
| "resolve TABLE r s =
     bind_result (qualify r s) (\<lambda>(c, sc, n). Inr (Table c sc n))"
| "resolve VOLUME r s =
     bind_result (qualify r s) (\<lambda>(c, sc, n). Inr (Volume c sc n))"
| "resolve FUNCTION r s =
     bind_result (qualify r s) (\<lambda>(c, sc, n). Inr (Function c sc n))"

fun object_exists :: "catalog_state \<Rightarrow> securable \<Rightarrow> bool" where
  "object_exists s (Catalog c) = (catalogs s c \<noteq> None)"
| "object_exists s (Schema c sc) = (schemas s (c, sc) \<noteq> None)"
| "object_exists s (Table c sc t) = (tables s (c, sc, t) \<noteq> None)"
| "object_exists s (Volume c sc v) = (volumes s (c, sc, v) \<noteq> None)"
| "object_exists s (Function c sc f) = (sql_functions s (c, sc, f) \<noteq> None)"

definition resolve_existing ::
  "object_kind \<Rightarrow> ref \<Rightarrow> catalog_state \<Rightarrow> error + securable" where
  "resolve_existing k r s =
     bind_result (resolve k r s)
       (\<lambda>obj. require (object_exists s obj) NotFoundError (Inr obj))"

text \<open>
  The three forms of CREATE on an object that is already there: the plain form is
  rejected, OR REPLACE overwrites, IF NOT EXISTS leaves everything as it is.
\<close>

definition create_entry ::
  "create_mode \<Rightarrow> ('k \<rightharpoonup> 'v) \<Rightarrow> 'k \<Rightarrow> 'v \<Rightarrow> error + ('k \<rightharpoonup> 'v)" where
  "create_entry mode m k v =
     (case m k of
        None \<Rightarrow> Inr (m(k \<mapsto> v))
      | Some _ \<Rightarrow>
          (case mode of
             Plain \<Rightarrow> Inl PlatformError
           | OrReplace \<Rightarrow> Inr (m(k \<mapsto> v))
           | IfNotExists \<Rightarrow> Inr m))"

definition create_policy_entry ::
  "create_mode \<Rightarrow> ('k \<times> 'v) list \<Rightarrow> 'k \<Rightarrow> 'v \<Rightarrow> error + ('k \<times> 'v) list" where
  "create_policy_entry mode ps k v =
     (case map_of ps k of
        None \<Rightarrow> Inr ((k, v) # ps)
      | Some _ \<Rightarrow>
          (case mode of
             Plain \<Rightarrow> Inl PlatformError
           | OrReplace \<Rightarrow> Inr ((k, v) # filter (\<lambda>e. fst e \<noteq> k) ps)
           | IfNotExists \<Rightarrow> Inr ps))"

fun tables_readable :: "catalog_state \<Rightarrow> ref list \<Rightarrow> error + unit" where
  "tables_readable s [] = Inr ()"
| "tables_readable s (r # rs) =
     bind_result (resolve_existing TABLE r s) (\<lambda>_. tables_readable s rs)"

fun source_readable :: "catalog_state \<Rightarrow> source \<Rightarrow> error + unit" where
  "source_readable s (read_files path) =
     require (path \<in> files s) SourceReadError (Inr ())"
| "source_readable s (select_from rs) = tables_readable s rs"

definition create_table ::
  "create_mode \<Rightarrow> table_key \<Rightarrow> table_format \<Rightarrow> catalog_state \<Rightarrow> error + catalog_state" where
  "create_table mode k fmt s =
     (case tables s k of
        None \<Rightarrow>
          Inr (s\<lparr>tables := (tables s)(k \<mapsto> (fresh_id s (next_id s), fmt)),
                 next_id := Suc (next_id s)\<rparr>)
      | Some (i, _) \<Rightarrow>
          (case mode of
             Plain \<Rightarrow> Inl PlatformError
           | OrReplace \<Rightarrow> Inr (s\<lparr>tables := (tables s)(k \<mapsto> (i, fmt))\<rparr>)
           | IfNotExists \<Rightarrow> Inr s))"

definition restore_table ::
  "table_id \<times> table_key \<times> table_format \<Rightarrow> catalog_state \<Rightarrow> error + catalog_state" where
  "restore_table e s =
     (case e of (i, k, fmt) \<Rightarrow>
        require (tables s k = None) PlatformError
          (Inr (s\<lparr>tables := (tables s)(k \<mapsto> (i, fmt)),
                  dropped := remove1 e (dropped s)\<rparr>)))"

definition set_tags ::
  "securable \<Rightarrow> name option \<Rightarrow> (string \<times> string) list \<Rightarrow> catalog_state \<Rightarrow> catalog_state" where
  "set_tags obj col kvs s =
     s\<lparr>tags := map (\<lambda>(k, v). (obj, col, k, v)) kvs
                @ filter (\<lambda>(obj', col', k', _). \<not> (obj' = obj \<and> col' = col \<and> k' \<in> fst ` set kvs))
                    (tags s)\<rparr>"

fun exec :: "stmt \<Rightarrow> catalog_state \<Rightarrow> error + catalog_state" where
  "exec (UseCatalog c) s =
     require (catalogs s c \<noteq> None) NotFoundError
       (Inr (s\<lparr>current_catalog := c, current_schema := ''default''\<rparr>))"
| "exec (UseSchema sc) s =
     require (schemas s (current_catalog s, sc) \<noteq> None) NotFoundError
       (Inr (s\<lparr>current_schema := sc\<rparr>))"
| "exec (CreateCatalog mode c comment) s =
     bind_result (create_entry mode (catalogs s) c comment)
       (\<lambda>m. Inr (s\<lparr>catalogs := m\<rparr>))"
| "exec (CreateSchema mode r comment) s =
     bind_result (resolve SCHEMA r s) (\<lambda>obj.
       case obj of
         Schema c sc \<Rightarrow>
           require (catalogs s c \<noteq> None) NotFoundError
             (bind_result (create_entry mode (schemas s) (c, sc) comment)
                (\<lambda>m. Inr (s\<lparr>schemas := m\<rparr>)))
       | _ \<Rightarrow> Inl PlatformError)"
| "exec (CreateVolume mode r comment) s =
     bind_result (resolve VOLUME r s) (\<lambda>obj.
       case obj of
         Volume c sc v \<Rightarrow>
           require (schemas s (c, sc) \<noteq> None) NotFoundError
             (bind_result (create_entry mode (volumes s) (c, sc, v) comment)
                (\<lambda>m. Inr (s\<lparr>volumes := m\<rparr>)))
       | _ \<Rightarrow> Inl PlatformError)"
| "exec (CreateTableAs mode r fmt src) s =
     bind_result (resolve TABLE r s) (\<lambda>obj.
       case obj of
         Table c sc t \<Rightarrow>
           require (schemas s (c, sc) \<noteq> None) NotFoundError
             (bind_result (source_readable s src)
                (\<lambda>_. create_table mode (c, sc, t) fmt s))
       | _ \<Rightarrow> Inl PlatformError)"
| "exec (DropTable r) s =
     bind_result (resolve TABLE r s) (\<lambda>obj.
       case obj of
         Table c sc t \<Rightarrow>
           (case tables s (c, sc, t) of
              None \<Rightarrow> Inl NotFoundError
            | Some (i, fmt) \<Rightarrow>
                Inr (s\<lparr>tables := (tables s)((c, sc, t) := None),
                       dropped := (i, (c, sc, t), fmt) # dropped s\<rparr>))
       | _ \<Rightarrow> Inl PlatformError)"
| "exec (UndropTable r) s =
     bind_result (resolve TABLE r s) (\<lambda>obj.
       case obj of
         Table c sc t \<Rightarrow>
           (case find (\<lambda>e. fst (snd e) = (c, sc, t)) (dropped s) of
              None \<Rightarrow> Inl NotFoundError
            | Some e \<Rightarrow> restore_table e s)
       | _ \<Rightarrow> Inl PlatformError)"
| "exec (UndropTableWithId i) s =
     (case find (\<lambda>e. fst e = i) (dropped s) of
        None \<Rightarrow> Inl NotFoundError
      | Some e \<Rightarrow> restore_table e s)"
| "exec (Grant p k r pr) s =
     bind_result (resolve_existing k r s)
       (\<lambda>obj. Inr (s\<lparr>grants := insert (p, obj, pr) (grants s)\<rparr>))"
| "exec (Revoke p k r pr) s =
     bind_result (resolve_existing k r s)
       (\<lambda>obj. Inr (s\<lparr>grants := grants s - {(p, obj, pr)}\<rparr>))"
| "exec (CreateFunction mode r f) s =
     bind_result (resolve FUNCTION r s) (\<lambda>obj.
       case obj of
         Function c sc n \<Rightarrow>
           require (schemas s (c, sc) \<noteq> None) NotFoundError
             (bind_result (create_entry mode (sql_functions s) (c, sc, n) f)
                (\<lambda>m. Inr (s\<lparr>sql_functions := m\<rparr>)))
       | _ \<Rightarrow> Inl PlatformError)"
| "exec (CreatePolicy mode n scope comment kind fr pr cm) s =
     bind_result (resolve_existing SCHEMA scope s) (\<lambda>sobj.
     bind_result (resolve_existing FUNCTION fr s) (\<lambda>fobj.
       case (sobj, fobj) of
         (Schema c sc, Function fc fsc fn) \<Rightarrow>
           bind_result
             (create_policy_entry mode (policies s) ((c, sc), n)
                \<lparr>p_comment = comment, p_kind = kind, p_function = (fc, fsc, fn),
                 p_to = pr, p_match = cm\<rparr>)
             (\<lambda>ps. Inr (s\<lparr>policies := ps\<rparr>))
       | _ \<Rightarrow> Inl PlatformError))"
| "exec (SetTableTags r kvs) s =
     bind_result (resolve_existing TABLE r s) (\<lambda>obj. Inr (set_tags obj None kvs s))"
| "exec (SetColumnTags r col kvs) s =
     bind_result (resolve_existing TABLE r s) (\<lambda>obj. Inr (set_tags obj (Some col) kvs s))"
| "exec (Describe k r) s = bind_result (resolve_existing k r s) (\<lambda>_. Inr s)"
| "exec (ShowTblProperties r) s = bind_result (resolve_existing TABLE r s) (\<lambda>_. Inr s)"
| "exec (SelectStar r) s = bind_result (resolve_existing TABLE r s) (\<lambda>_. Inr s)"
| "exec (ShowGrants k r) s = bind_result (resolve_existing k r s) (\<lambda>_. Inr s)"
| "exec (ShowVolumes r) s = bind_result (resolve_existing SCHEMA r s) (\<lambda>_. Inr s)"
| "exec (ShowTables pat) s = Inr s"
| "exec ShowTablesDropped s = Inr s"
| "exec SelectCurrent s = Inr s"
| "exec (SelectInformationSchema v) s = Inr s"
| "exec (Unquoted ts st) s =
     require (list_all plain_identifier ts) PlatformError (exec st s)"

text \<open>
  A notebook runs its statements in order; the first rejected statement ends the run, and
  what was done before it stays done.
\<close>

fun run :: "stmt list \<Rightarrow> catalog_state \<Rightarrow> catalog_state \<times> error option" where
  "run [] s = (s, None)"
| "run (st # sts) s =
     (case exec st s of
        Inl e \<Rightarrow> (s, Some e)
      | Inr s' \<Rightarrow> run sts s')"

definition run_lab1 :: "string \<Rightarrow> catalog_state \<Rightarrow> catalog_state \<times> error option" where
  "run_lab1 user_name s =
     (case catalog_name user_name of
        Inl e \<Rightarrow> (s, Some e)
      | Inr cat \<Rightarrow> run (lab1_statements cat) s)"

definition run_lab3 :: "string \<Rightarrow> catalog_state \<Rightarrow> catalog_state \<times> error option" where
  "run_lab3 user_name s =
     (case catalog_name user_name of
        Inl e \<Rightarrow> (s, Some e)
      | Inr cat \<Rightarrow> run (lab3_statements cat) s)"

definition run_lab4 :: "string \<Rightarrow> catalog_state \<Rightarrow> catalog_state \<times> error option" where
  "run_lab4 user_name s =
     (case catalog_name user_name of
        Inl e \<Rightarrow> (s, Some e)
      | Inr cat \<Rightarrow> run (lab4_statements cat user_name) s)"

definition run_lab5 :: "string \<Rightarrow> catalog_state \<Rightarrow> catalog_state \<times> error option" where
  "run_lab5 user_name s =
     (case catalog_name user_name of
        Inl e \<Rightarrow> (s, Some e)
      | Inr cat \<Rightarrow> run (lab5_statements cat) s)"

text \<open>\<^verbatim>\<open>SHOW GRANTS ON <object>\<close> lists the grants made on the object itself.\<close>

definition list_grants :: "catalog_state \<Rightarrow> securable \<Rightarrow> (principal \<times> privilege) set" where
  "list_grants s obj = {(pr, p). (p, obj, pr) \<in> grants s}"

section \<open>Reading a table through the policies of its schema\<close>

text \<open>
  \<^verbatim>\<open>
  CREATE POLICY nation_filter ON SCHEMA ... ROW FILTER ...filter_nation TO `account users`
    FOR TABLES MATCH COLUMNS hasTag('uc_geo') AS nation USING COLUMNS (nation)
  CREATE POLICY mask_address ON SCHEMA ... COLUMN MASK ...mask_address TO `account users`
    FOR TABLES MATCH COLUMNS hasTagValue('uc_pii', 'address') AS address ON COLUMN address
  \<close>
  A policy of a schema acts on every table of the schema with a column that carries the
  matching tag, for the sessions of the principal it names. A row filter keeps the rows
  on which its function is true (NULL is not true) and needs one matching column; a
  column mask replaces the value of each matching column by the function's result. The
  filters see the stored values. Both functions of the notebook take a string, and the
  stored contents of a table are modelled as its string columns.
\<close>

record table_data =
  columns :: "name list"
  rows :: "sql_string list list"

definition cell :: "table_data \<Rightarrow> sql_string list \<Rightarrow> name \<Rightarrow> sql_string" where
  "cell d r c = (case map_of (zip (columns d) r) c of None \<Rightarrow> None | Some v \<Rightarrow> v)"

fun tag_matches :: "column_match \<Rightarrow> string \<times> string \<Rightarrow> bool" where
  "tag_matches (hasTag k) (k', v') = (k' = k)"
| "tag_matches (hasTagValue k v) (k', v') = (k' = k \<and> v' = v)"

definition column_tags :: "catalog_state \<Rightarrow> table_key \<Rightarrow> name \<Rightarrow> (string \<times> string) list" where
  "column_tags s k c =
     (case k of (cat, sc, t) \<Rightarrow>
        map (\<lambda>e. snd (snd e))
          (filter (\<lambda>e. fst e = Table cat sc t \<and> fst (snd e) = Some c) (tags s)))"

definition matched_columns ::
  "catalog_state \<Rightarrow> table_key \<Rightarrow> column_match \<Rightarrow> name list \<Rightarrow> name list" where
  "matched_columns s k cm cols =
     filter (\<lambda>c. list_ex (tag_matches cm) (column_tags s k c)) cols"

definition policy_applies :: "session \<Rightarrow> policy \<Rightarrow> bool" where
  "policy_applies ses p = (p_to p = login ses \<or> p_to p \<in> account_groups ses)"

definition table_policies :: "catalog_state \<Rightarrow> session \<Rightarrow> table_key \<Rightarrow> policy list" where
  "table_policies s ses k =
     (case k of (cat, sc, t) \<Rightarrow>
        map snd
          (filter (\<lambda>e. fst (fst e) = (cat, sc) \<and> policy_applies ses (snd e)) (policies s)))"

definition apply_row_filter ::
  "catalog_state \<Rightarrow> session \<Rightarrow> table_key \<Rightarrow> table_data \<Rightarrow> policy
     \<Rightarrow> sql_string list list \<Rightarrow> error + sql_string list list" where
  "apply_row_filter s ses k d p rs =
     (case p_kind p of
        COLUMN_MASK \<Rightarrow> Inr rs
      | ROW_FILTER \<Rightarrow>
          (case sql_functions s (p_function p) of
             Some (RowPredicate f) \<Rightarrow>
               (case matched_columns s k (p_match p) (columns d) of
                  [] \<Rightarrow> Inr rs
                | [c] \<Rightarrow> Inr (filter (\<lambda>r. f ses (cell d r c) = Some True) rs)
                | _ \<Rightarrow> Inl PlatformError)
           | Some (ColumnTransform f) \<Rightarrow> Inl PlatformError
           | None \<Rightarrow> Inl NotFoundError))"

fun mask_cells ::
  "(sql_string \<Rightarrow> sql_string) \<Rightarrow> name list \<Rightarrow> name list \<Rightarrow> sql_string list \<Rightarrow> sql_string list"
where
  "mask_cells f matched (c # cs) (v # vs) =
     (if c \<in> set matched then f v else v) # mask_cells f matched cs vs"
| "mask_cells f matched cs vs = vs"

definition apply_column_mask ::
  "catalog_state \<Rightarrow> session \<Rightarrow> table_key \<Rightarrow> table_data \<Rightarrow> policy
     \<Rightarrow> sql_string list list \<Rightarrow> error + sql_string list list" where
  "apply_column_mask s ses k d p rs =
     (case p_kind p of
        ROW_FILTER \<Rightarrow> Inr rs
      | COLUMN_MASK \<Rightarrow>
          (case sql_functions s (p_function p) of
             Some (ColumnTransform f) \<Rightarrow>
               Inr (map (mask_cells (f ses) (matched_columns s k (p_match p) (columns d))
                          (columns d)) rs)
           | Some (RowPredicate f) \<Rightarrow> Inl PlatformError
           | None \<Rightarrow> Inl NotFoundError))"

fun visible_rows ::
  "catalog_state \<Rightarrow> session \<Rightarrow> table_key \<Rightarrow> table_data \<Rightarrow> policy list
     \<Rightarrow> sql_string list list \<Rightarrow> error + sql_string list list" where
  "visible_rows s ses k d [] rs = Inr rs"
| "visible_rows s ses k d (p # ps) rs =
     bind_result (apply_row_filter s ses k d p rs) (visible_rows s ses k d ps)"

fun masked_rows ::
  "catalog_state \<Rightarrow> session \<Rightarrow> table_key \<Rightarrow> table_data \<Rightarrow> policy list
     \<Rightarrow> sql_string list list \<Rightarrow> error + sql_string list list" where
  "masked_rows s ses k d [] rs = Inr rs"
| "masked_rows s ses k d (p # ps) rs =
     bind_result (apply_column_mask s ses k d p rs) (masked_rows s ses k d ps)"

text \<open>\<^verbatim>\<open>SELECT * FROM t\<close> as the session sees it, \<open>d\<close> being the stored contents of \<open>t\<close>.\<close>

definition select_star ::
  "catalog_state \<Rightarrow> session \<Rightarrow> table_key \<Rightarrow> table_data \<Rightarrow> error + table_data" where
  "select_star s ses k d =
     require (tables s k \<noteq> None) NotFoundError
       (bind_result (visible_rows s ses k d (table_policies s ses k) (rows d)) (\<lambda>vis.
        bind_result (masked_rows s ses k d (table_policies s ses k) vis) (\<lambda>out.
          Inr (d\<lparr>rows := out\<rparr>))))"

text \<open>The same read with the row filters of the schema taken away.\<close>

definition without_row_filters :: "catalog_state \<Rightarrow> catalog_state" where
  "without_row_filters s =
     s\<lparr>policies := filter (\<lambda>e. p_kind (snd e) \<noteq> ROW_FILTER) (policies s)\<rparr>"

section \<open>Lab 3: the fact table\<close>

text \<open>
  \<^verbatim>\<open>
  CREATE OR REPLACE TABLE {catalog_name}.{schema_name}.sales_fact AS
  SELECT row_number() OVER (ORDER BY l.l_orderkey, l.l_linenumber) as sales_key,
         o.o_orderkey as order_key, l.l_linenumber as lineitem_key,
         c.c_custkey as customer_key, s.s_suppkey as supplier_key,
         o.o_orderdate as date_key, l.l_extendedprice as sales_amount,
         l.l_quantity as quantity
  FROM samples.tpch.lineitem l
  JOIN ...orders o ON l.l_orderkey = o.o_orderkey
  JOIN ...customers c ON o.o_custkey = c.c_custkey
  JOIN ...suppliers s ON l.l_suppkey = s.s_suppkey
  \<close>
  The rows carry the columns the query reads. Columns are nullable (\<open>None\<close> is NULL);
  keys are integers, the date is a day number, price and quantity are scaled integers.
  An equality with NULL is not true, so such rows do not join. The ascending order of
  ORDER BY puts NULL first, as the order on \<open>option\<close> does.
\<close>

record lineitem =
  l_orderkey :: "int option"
  l_linenumber :: "int option"
  l_suppkey :: "int option"
  l_extendedprice :: "int option"
  l_quantity :: "int option"

record orders =
  o_orderkey :: "int option"
  o_custkey :: "int option"
  o_orderdate :: "int option"

record customers =
  c_custkey :: "int option"

record suppliers =
  s_suppkey :: "int option"

record snapshot =
  lineitem_rows :: "lineitem list"
  orders_rows :: "orders list"
  customers_rows :: "customers list"
  suppliers_rows :: "suppliers list"

record sales_fact_row =
  sales_key :: int
  order_key :: "int option"
  lineitem_key :: "int option"
  customer_key :: "int option"
  supplier_key :: "int option"
  date_key :: "int option"
  sales_amount :: "int option"
  quantity :: "int option"

type_synonym joined = "lineitem \<times> orders \<times> customers \<times> suppliers"

definition sql_eq :: "'a option \<Rightarrow> 'a option \<Rightarrow> bool" where
  "sql_eq a b = (case (a, b) of (Some x, Some y) \<Rightarrow> x = y | _ \<Rightarrow> False)"

definition sales_join :: "snapshot \<Rightarrow> joined list" where
  "sales_join snap =
     [(li, od, cu, su).
        li \<leftarrow> lineitem_rows snap,
        od \<leftarrow> orders_rows snap, sql_eq (l_orderkey li) (o_orderkey od),
        cu \<leftarrow> customers_rows snap, sql_eq (o_custkey od) (c_custkey cu),
        su \<leftarrow> suppliers_rows snap, sql_eq (l_suppkey li) (s_suppkey su)]"

definition order_by :: "joined \<Rightarrow> int option \<times> int option" where
  "order_by j = (case j of (li, od, cu, su) \<Rightarrow> (l_orderkey li, l_linenumber li))"

definition select_row :: "int \<Rightarrow> joined \<Rightarrow> sales_fact_row" where
  "select_row n j =
     (case j of (li, od, cu, su) \<Rightarrow>
        \<lparr>sales_key = n,
         order_key = o_orderkey od,
         lineitem_key = l_linenumber li,
         customer_key = c_custkey cu,
         supplier_key = s_suppkey su,
         date_key = o_orderdate od,
         sales_amount = l_extendedprice li,
         quantity = l_quantity li\<rparr>)"

definition number_rows :: "joined list \<Rightarrow> sales_fact_row list" where
  "number_rows p = map2 select_row [1 ..int (length p)] p"

text \<open>
  \<open>row_number()\<close> numbers the rows of the join in the order of the ORDER BY key. SQL
  leaves open how rows with equal keys are arranged, and a relation has no row order of
  its own: every arrangement of the joined rows that is sorted by the key is a result the
  engine may produce.
\<close>

inductive sales_fact_result :: "snapshot \<Rightarrow> sales_fact_row list \<Rightarrow> bool" where
  "mset p = mset (sales_join snap) \<Longrightarrow> sorted (map order_by p) \<Longrightarrow>
   sales_fact_result snap (number_rows p)"

text \<open>One such run: a stable sort of the join in the order the rows are stored.\<close>

definition sales_fact :: "snapshot \<Rightarrow> sales_fact_row list" where
  "sales_fact snap = number_rows (sort_key order_by (sales_join snap))"

section \<open>Reading the scripts, and two states to run them on\<close>

text \<open>Which namespace object a statement creates, and in which form of CREATE.\<close>

fun namespace_creation :: "stmt \<Rightarrow> (object_kind \<times> create_mode) option" where
  "namespace_creation (CreateCatalog m c cm) = Some (CATALOG, m)"
| "namespace_creation (CreateSchema m r cm) = Some (SCHEMA, m)"
| "namespace_creation (CreateVolume m r cm) = Some (VOLUME, m)"
| "namespace_creation st = None"

text \<open>
  The create-if-absent statements of the namespace builder. Lab 1 has the one for the
  schema and the one for the volume; the one for the catalog is the statement its text
  cell quotes: \<^verbatim>\<open>CREATE CATALOG IF NOT EXISTS `your_catalog_name` COMMENT '...'\<close>.
\<close>

fun is_ensure :: "stmt \<Rightarrow> bool" where
  "is_ensure (CreateCatalog m c cm) = (m = IfNotExists)"
| "is_ensure (CreateSchema m r cm) = (m = IfNotExists)"
| "is_ensure (CreateVolume m r cm) = (m = IfNotExists)"
| "is_ensure st = False"

text \<open>The grants and revokes a script makes on a catalog.\<close>

fun catalog_grant :: "stmt \<Rightarrow> (privilege \<times> principal) option" where
  "catalog_grant (Grant p CATALOG r pr) = Some (p, pr)"
| "catalog_grant (Unquoted ts st) = catalog_grant st"
| "catalog_grant st = None"

fun catalog_revoke :: "stmt \<Rightarrow> (privilege \<times> principal) option" where
  "catalog_revoke (Revoke p CATALOG r pr) = Some (p, pr)"
| "catalog_revoke (Unquoted ts st) = catalog_revoke st"
| "catalog_revoke st = None"

text \<open>What lab 4 needs to be there: the objects its statements name.\<close>

definition lab4_ready :: "name \<Rightarrow> catalog_state \<Rightarrow> bool" where
  "lab4_ready cat s =
     (catalogs s cat \<noteq> None \<and> schemas s (cat, schema_name) \<noteq> None
      \<and> tables s (cat, schema_name, ''sales_fact'') \<noteq> None
      \<and> volumes s (cat, schema_name, ''tracking'') \<noteq> None)"

text \<open>
  What lab 3 needs: the catalog and its schema, the five source paths and the sample
  table, and a platform on which the placeholder of the last UNDROP is no table's
  identifier, neither given out already nor ever allocated.
\<close>

definition lab3_sources :: "string list" where
  "lab3_sources =
     [''/Volumes/uc_wksp/gov_lab/files/customers/'',
      ''/Volumes/uc_wksp/gov_lab/files/nations/'',
      ''/Volumes/uc_wksp/gov_lab/files/orders/'',
      ''/Volumes/uc_wksp/gov_lab/files/regions/'',
      ''/Volumes/uc_wksp/gov_lab/files/suppliers/'']"

definition placeholder_unused :: "catalog_state \<Rightarrow> bool" where
  "placeholder_unused s =
     ((\<forall>n. fresh_id s n \<noteq> placeholder_table_id)
      \<and> (\<forall>k i fmt. tables s k = Some (i, fmt) \<longrightarrow> i \<noteq> placeholder_table_id)
      \<and> (\<forall>e \<in> set (dropped s). fst e \<noteq> placeholder_table_id))"

definition lab3_ready :: "name \<Rightarrow> catalog_state \<Rightarrow> bool" where
  "lab3_ready cat s =
     (catalogs s cat \<noteq> None \<and> schemas s (cat, schema_name) \<noteq> None
      \<and> set lab3_sources \<subseteq> files s
      \<and> tables s (''samples'', ''tpch'', ''lineitem'') \<noteq> None)"

text \<open>
  A platform as the workshop hands it out (the catalog of user \<open>jdoe\<close> is there, nothing
  in it yet), and the same platform with the objects of labs 1 to 3 in place.
\<close>

definition provisioned :: catalog_state where
  "provisioned =
     \<lparr>catalogs = [''jdoe'' \<mapsto> ''Lab catalog'', ''samples'' \<mapsto> ''Samples''],
      schemas = [(''jdoe'', ''default'') \<mapsto> [], (''samples'', ''tpch'') \<mapsto> []],
      volumes = Map.empty,
      tables = [(''samples'', ''tpch'', ''lineitem'') \<mapsto> (''t0'', DELTA)],
      dropped = [],
      fresh_id = (\<lambda>n. CHR ''t'' # replicate (Suc n) (CHR ''1'')),
      next_id = 0,
      files = set lab3_sources,
      sql_functions = Map.empty,
      policies = [],
      tags = [],
      grants = {},
      current_catalog = ''workspace'',
      current_schema = ''default''\<rparr>"

definition workshop :: catalog_state where
  "workshop =
     provisioned
       \<lparr>schemas := [(''jdoe'', ''default'') \<mapsto> [], (''samples'', ''tpch'') \<mapsto> [],
                    (''jdoe'', ''sales'') \<mapsto> ''Sales schema to review customers and orders.''],
        volumes := [(''jdoe'', ''sales'', ''tracking'')
                      \<mapsto> ''Volume for checkpoint files and schema tracking''],
        tables := [(''samples'', ''tpch'', ''lineitem'') \<mapsto> (''t0'', DELTA),
                   (''jdoe'', ''sales'', ''customers'') \<mapsto> (''t1'', DELTA),
                   (''jdoe'', ''sales'', ''nations'') \<mapsto> (''t11'', DELTA),
                   (''jdoe'', ''sales'', ''orders'') \<mapsto> (''t111'', DELTA),
                   (''jdoe'', ''sales'', ''regions'') \<mapsto> (''t1111'', DELTA),
                   (''jdoe'', ''sales'', ''suppliers'') \<mapsto> (''t11111'', ICEBERG),
                   (''jdoe'', ''sales'', ''sales_fact'') \<mapsto> (''t111111'', DELTA)],
        next_id := 6\<rparr>"


definition after_lab5 :: catalog_state where
  "after_lab5 = fst (run_lab5 ''jdoe@example.com'' workshop)"

definition account_user :: session where
  "account_user = \<lparr>login = ''jdoe@example.com'', account_groups = {''account users''}\<rparr>"

definition admin_user :: session where
  "admin_user =
     \<lparr>login = ''root@example.com'',
      account_groups = {''account users'', ''geo'', ''hr_admin''}\<rparr>"

definition customers_data :: table_data where
  "customers_data =
     \<lparr>columns = [''c_name'', ''c_address''],
      rows = [[Some ''Customer#1'', Some ''12 Main St''],
              [Some ''Customer#2'', Some ''XXX Masked Address''],
              [Some ''Customer#3'', None]]\<rparr>"

definition suppliers_data :: table_data where
  "suppliers_data =
     \<lparr>columns = [''s_name'', ''n_name''],
      rows = [[Some ''Supplier#1'', Some ''CANADA''],
              [Some ''Supplier#2'', Some ''FRANCE''],
              [Some ''Supplier#3'', None]]\<rparr>"

text \<open>
  Snapshots in which every key is unique in its table, and one in which it is not: one
  line item, and two stored orders with the order key 1 that differ in their date.
\<close>

definition keys_unique :: "snapshot \<Rightarrow> bool" where
  "keys_unique snap =
     (distinct (map (\<lambda>li. (l_orderkey li, l_linenumber li)) (lineitem_rows snap))
      \<and> distinct (map o_orderkey (orders_rows snap))
      \<and> distinct (map c_custkey (customers_rows snap))
      \<and> distinct (map s_suppkey (suppliers_rows snap)))"

definition tie_snapshot :: snapshot where
  "tie_snapshot =
     \<lparr>lineitem_rows =
        [\<lparr>l_orderkey = Some 1, l_linenumber = Some 1, l_suppkey = Some 7,
          l_extendedprice = Some 1000, l_quantity = Some 2\<rparr>],
      orders_rows =
        [\<lparr>o_orderkey = Some 1, o_custkey = Some 5, o_orderdate = Some 10\<rparr>,
         \<lparr>o_orderkey = Some 1, o_custkey = Some 5, o_orderdate = Some 20\<rparr>],
      customers_rows = [\<lparr>c_custkey = Some 5\<rparr>],
      suppliers_rows = [\<lparr>s_suppkey = Some 7\<rparr>]\<rparr>"

definition tie_row :: "int \<Rightarrow> int \<Rightarrow> sales_fact_row" where
  "tie_row n d =
     \<lparr>sales_key = n, order_key = Some 1, lineitem_key = Some 1, customer_key = Some 5,
      supplier_key = Some 7, date_key = Some d, sales_amount = Some 1000,
      quantity = Some 2\<rparr>"

definition unique_snapshot :: snapshot where
  "unique_snapshot =
     \<lparr>lineitem_rows =
        [\<lparr>l_orderkey = Some 2, l_linenumber = Some 1, l_suppkey = Some 7,
          l_extendedprice = Some 500, l_quantity = Some 1\<rparr>,
         \<lparr>l_orderkey = Some 1, l_linenumber = Some 2, l_suppkey = Some 7,
          l_extendedprice = Some 300, l_quantity = Some 3\<rparr>,
         \<lparr>l_orderkey = Some 1, l_linenumber = Some 1, l_suppkey = Some 7,
          l_extendedprice = Some 1000, l_quantity = Some 2\<rparr>,
         \<lparr>l_orderkey = Some 9, l_linenumber = Some 1, l_suppkey = None,
          l_extendedprice = Some 1, l_quantity = Some 1\<rparr>],
      orders_rows =
        [\<lparr>o_orderkey = Some 1, o_custkey = Some 5, o_orderdate = Some 10\<rparr>,
         \<lparr>o_orderkey = Some 2, o_custkey = Some 5, o_orderdate = Some 20\<rparr>,
         \<lparr>o_orderkey = Some 9, o_custkey = Some 5, o_orderdate = Some 30\<rparr>],
      customers_rows = [\<lparr>c_custkey = Some 5\<rparr>],
      suppliers_rows = [\<lparr>s_suppkey = Some 7\<rparr>]\<rparr>"



section \<open>Properties of the identity resolver\<close>

lemma split_py_not_Nil: "split_py sep s \<noteq> []"
  by (induction s) (auto split: list.splits)

lemma split_py_prefix:
  "sep \<notin> set u \<Longrightarrow> \<exists>ws. split_py sep (u @ sep # d) = u # ws"
proof (induction u)
  case Nil
  then show ?case by simp
next
  case (Cons c u)
  then obtain ws where "split_py sep (u @ sep # d) = u # ws" by auto
  moreover from Cons.prems have "c \<noteq> sep" by auto
  ultimately show ?case by simp
qed

lemma user_id_takeWhile: "user_id s = Inr (takeWhile (\<lambda>c. c \<noteq> CHR ''@'') s)"
proof -
  have "\<exists>ws. split_py sep s = takeWhile (\<lambda>c. c \<noteq> sep) s # ws" for sep
    by (induction s) (auto split: list.splits)
  then obtain ws where
    "split_py (CHR ''@'') s = takeWhile (\<lambda>c. c \<noteq> CHR ''@'') s # ws" by blast
  then show ?thesis
    by (simp add: user_id_def index0_def)
qed

text \<open>
  Claim C2. For a login \<open>u@domain\<close>, where \<open>u\<close> is the part before the first \<open>@\<close>
  (so \<open>u\<close> holds no \<open>@\<close>), the derived identifier is \<open>u\<close>, and the catalog name is
  that identifier.
\<close>

theorem derive_namespace_local_part:
  assumes "CHR ''@'' \<notin> set u"
  shows "user_id (u @ CHR ''@'' # domain) = Inr u
       \<and> catalog_name (u @ CHR ''@'' # domain) = Inr u"
proof -
  from assms obtain ws where "split_py (CHR ''@'') (u @ CHR ''@'' # domain) = u # ws"
    using split_py_prefix by blast
  then show ?thesis
    by (simp add: catalog_name_def user_id_def index0_def)
qed

theorem derive_namespace_local_part_witness:
  "user_id ''jdoe@example.com'' = Inr ''jdoe''
   \<and> catalog_name ''jdoe@example.com'' = Inr ''jdoe''"
  using derive_namespace_local_part [of "''jdoe''" "''example.com''"] by simp

section \<open>Name resolution and the frame of a statement\<close>

lemmas exec_defs = bind_result_def require_def resolve_existing_def create_entry_def
  create_policy_entry_def create_table_def restore_table_def set_tags_def

lemma qualify_context:
  "current_catalog s' = current_catalog s \<Longrightarrow> current_schema s' = current_schema s
   \<Longrightarrow> qualify r s' = qualify r s"
  by (cases "(r, s)" rule: qualify.cases) simp_all

lemma resolve_context:
  "current_catalog s' = current_catalog s \<Longrightarrow> current_schema s' = current_schema s
   \<Longrightarrow> resolve k r s' = resolve k r s"
  by (cases k) (simp_all add: qualify_context [of s' s] split: list.splits)

lemma resolve_updates [simp]:
  "resolve k r (s\<lparr>catalogs := a\<rparr>) = resolve k r s"
  "resolve k r (s\<lparr>schemas := b\<rparr>) = resolve k r s"
  "resolve k r (s\<lparr>volumes := c\<rparr>) = resolve k r s"
  "resolve k r (s\<lparr>tables := d\<rparr>) = resolve k r s"
  "resolve k r (s\<lparr>dropped := e\<rparr>) = resolve k r s"
  "resolve k r (s\<lparr>next_id := f\<rparr>) = resolve k r s"
  "resolve k r (s\<lparr>sql_functions := g\<rparr>) = resolve k r s"
  "resolve k r (s\<lparr>policies := h\<rparr>) = resolve k r s"
  "resolve k r (s\<lparr>tags := i\<rparr>) = resolve k r s"
  "resolve k r (s\<lparr>grants := j\<rparr>) = resolve k r s"
  by (rule resolve_context; simp)+

lemma resolve_shape:
  "resolve CATALOG r s = Inr obj \<Longrightarrow> \<exists>c. obj = Catalog c"
  "resolve SCHEMA r s = Inr obj \<Longrightarrow> \<exists>c sc. obj = Schema c sc"
  "resolve TABLE r s = Inr obj \<Longrightarrow> \<exists>c sc n. obj = Table c sc n"
  "resolve VOLUME r s = Inr obj \<Longrightarrow> \<exists>c sc n. obj = Volume c sc n"
  "resolve FUNCTION r s = Inr obj \<Longrightarrow> \<exists>c sc n. obj = Function c sc n"
  by (auto simp: bind_result_def split: list.splits sum.splits)

lemma object_exists_updates [simp]:
  "object_exists (s\<lparr>grants := g\<rparr>) obj = object_exists s obj"
  "object_exists (s\<lparr>policies := h\<rparr>) obj = object_exists s obj"
  "object_exists (s\<lparr>tags := i\<rparr>) obj = object_exists s obj"
  "object_exists (s\<lparr>dropped := e\<rparr>) obj = object_exists s obj"
  "object_exists (s\<lparr>next_id := f\<rparr>) obj = object_exists s obj"
  by (cases obj; simp)+

lemma catalog_name_jdoe: "catalog_name ''jdoe@example.com'' = Inr ''jdoe''"
  by (simp add: catalog_name_def user_id_def index0_def)

lemmas identifier_defs = plain_identifier_def identifier_chars_def numeric_literal_def
  is_letter_def is_digit_def integer_suffixes_def decimal_suffixes_def

lemma plain_schema_name [simp]: "plain_identifier schema_name"
  by (simp add: identifier_defs schema_name_def)

lemma plain_sales [simp]: "plain_identifier ''sales''"
  using plain_schema_name by (simp add: schema_name_def)

lemma plain_jdoe [simp]: "plain_identifier ''jdoe''"
  by (simp add: identifier_defs)

lemma not_plain_examples:
  "\<not> plain_identifier ''john-doe''" "\<not> plain_identifier ''john.doe''"
  "\<not> plain_identifier ''123''" "\<not> plain_identifier ''1e5''"
  "\<not> plain_identifier ''12L''" "\<not> plain_identifier []"
  "plain_identifier ''john_doe''" "plain_identifier ''1abc''"
  by (simp_all add: identifier_defs)

section \<open>Lab 1: the namespace builder\<close>

text \<open>
  Claim C1, as the code has it. Lab 1 creates two namespace objects, the schema and then
  the volume, both with IF NOT EXISTS; it has no statement that creates a catalog. It
  makes the catalog named after the user the current one first: where that catalog is
  missing the run ends there with the platform's not-found error and nothing is created;
  where it is there the run goes through, the schema \<open>sales\<close> and the volume \<open>tracking\<close>
  exist afterwards, the context is that catalog and \<open>sales\<close>, and the catalogs are as
  before.
\<close>

theorem namespace_builder_lab1:
  assumes "catalog_name user_name = Inr cat"
  shows "List.map_filter namespace_creation (lab1_statements cat)
           = [(SCHEMA, IfNotExists), (VOLUME, IfNotExists)]
       \<and> (catalogs s cat = None \<longrightarrow> run_lab1 user_name s = (s, Some NotFoundError))
       \<and> (catalogs s cat \<noteq> None \<longrightarrow>
            (\<exists>s'. run_lab1 user_name s = (s', None)
               \<and> current_catalog s' = cat \<and> current_schema s' = ''sales''
               \<and> schemas s' (cat, ''sales'') \<noteq> None
               \<and> volumes s' (cat, ''sales'', ''tracking'') \<noteq> None
               \<and> catalogs s' = catalogs s))"
proof (intro conjI impI)
  show "List.map_filter namespace_creation (lab1_statements cat)
           = [(SCHEMA, IfNotExists), (VOLUME, IfNotExists)]"
    by (simp add: lab1_statements_def List.map_filter_simps)
next
  assume "catalogs s cat = None"
  with assms show "run_lab1 user_name s = (s, Some NotFoundError)"
    by (simp add: run_lab1_def lab1_statements_def exec_defs)
next
  assume "catalogs s cat \<noteq> None"
  with assms show "\<exists>s'. run_lab1 user_name s = (s', None)
               \<and> current_catalog s' = cat \<and> current_schema s' = ''sales''
               \<and> schemas s' (cat, ''sales'') \<noteq> None
               \<and> volumes s' (cat, ''sales'', ''tracking'') \<noteq> None
               \<and> catalogs s' = catalogs s"
    by (auto simp: run_lab1_def lab1_statements_def exec_defs split: option.splits)
qed

theorem namespace_builder_lab1_witness:
  "List.map_filter namespace_creation (lab1_statements ''jdoe'')
           = [(SCHEMA, IfNotExists), (VOLUME, IfNotExists)]
   \<and> (\<exists>s'. run_lab1 ''jdoe@example.com'' provisioned = (s', None)
               \<and> current_catalog s' = ''jdoe'' \<and> current_schema s' = ''sales''
               \<and> schemas s' (''jdoe'', ''sales'') \<noteq> None
               \<and> volumes s' (''jdoe'', ''sales'', ''tracking'') \<noteq> None
               \<and> catalogs s' = catalogs provisioned)"
proof -
  have c: "catalogs provisioned ''jdoe'' \<noteq> None" by (simp add: provisioned_def)
  show ?thesis
    using namespace_builder_lab1 [OF catalog_name_jdoe, of provisioned] c by blast
qed

text \<open>
  The claim as the specification words it has the builder create all three objects. For
  the user \<open>jdoe\<close> no statement of lab 1 creates a catalog, and on a platform without the
  catalog \<open>jdoe\<close> the run is rejected and leaves the catalog absent.
\<close>

theorem lab1_creates_no_catalog_counterexample:
  "(CATALOG, IfNotExists) \<notin> set (List.map_filter namespace_creation (lab1_statements ''jdoe''))
   \<and> snd (run_lab1 ''jdoe@example.com'' (provisioned\<lparr>catalogs := Map.empty\<rparr>))
       = Some NotFoundError
   \<and> catalogs (fst (run_lab1 ''jdoe@example.com'' (provisioned\<lparr>catalogs := Map.empty\<rparr>))) ''jdoe''
       = None"
  by (simp add: catalog_name_jdoe run_lab1_def lab1_statements_def exec_defs
      List.map_filter_simps)

section \<open>Create-if-absent is idempotent\<close>

lemma ensure_is_noop:
  assumes "is_ensure st" and "exec st s = Inr s1"
  shows "exec st s1 = Inr s1"
proof (cases st)
  case (CreateCatalog m c cm)
  with assms show ?thesis
    by (auto simp: exec_defs split: option.splits)
next
  case (CreateSchema m r cm)
  show ?thesis
  proof (cases "resolve SCHEMA r s")
    case (Inl e)
    with assms CreateSchema show ?thesis
      by (simp add: exec_defs del: resolve.simps)
  next
    case (Inr obj)
    then obtain c sc where "obj = Schema c sc" using resolve_shape(2) by blast
    with Inr CreateSchema assms show ?thesis
      by (auto simp: exec_defs simp del: resolve.simps split: option.splits if_splits)
  qed
next
  case (CreateVolume m r cm)
  show ?thesis
  proof (cases "resolve VOLUME r s")
    case (Inl e)
    with assms CreateVolume show ?thesis
      by (simp add: exec_defs del: resolve.simps)
  next
    case (Inr obj)
    then obtain c sc n where "obj = Volume c sc n" using resolve_shape(4) by blast
    with Inr CreateVolume assms show ?thesis
      by (auto simp: exec_defs simp del: resolve.simps split: option.splits if_splits)
  qed
qed (use assms in simp_all)

text \<open>
  Claim C3. For each create-if-absent statement of a catalog, a schema or a volume,
  with any name and comment and on any state of the platform: issuing it twice gives the
  state and the outcome of issuing it once, and once it has succeeded, issuing it again
  succeeds and changes nothing (no duplicate-object error).
\<close>

theorem ensure_idempotent:
  assumes "is_ensure st"
  shows "run [st, st] s = run [st] s
       \<and> (\<forall>s1. exec st s = Inr s1 \<longrightarrow> exec st s1 = Inr s1)"
proof -
  have noop: "\<forall>s1. exec st s = Inr s1 \<longrightarrow> exec st s1 = Inr s1"
    using ensure_is_noop [OF assms] by blast
  then have "run [st, st] s = run [st] s"
    by (cases "exec st s") simp_all
  with noop show ?thesis by blast
qed

theorem ensure_idempotent_witness:
  "is_ensure (CreateSchema IfNotExists [''sales''] ''Sales'')
   \<and> run [CreateSchema IfNotExists [''sales''] ''Sales'',
           CreateSchema IfNotExists [''sales''] ''Sales''] (provisioned\<lparr>current_catalog := ''jdoe''\<rparr>)
     = run [CreateSchema IfNotExists [''sales''] ''Sales''] (provisioned\<lparr>current_catalog := ''jdoe''\<rparr>)
   \<and> snd (run [CreateSchema IfNotExists [''sales''] ''Sales''] (provisioned\<lparr>current_catalog := ''jdoe''\<rparr>))
     = None
   \<and> schemas (fst (run [CreateSchema IfNotExists [''sales''] ''Sales''] (provisioned\<lparr>current_catalog := ''jdoe''\<rparr>)))
       (''jdoe'', ''sales'') = Some ''Sales''"
proof -
  have e: "is_ensure (CreateSchema IfNotExists [''sales''] ''Sales'')" by simp
  show ?thesis
    using ensure_idempotent [OF e, of "provisioned\<lparr>current_catalog := ''jdoe''\<rparr>"]
    by (simp add: exec_defs provisioned_def)
qed

section \<open>Lab 4: grants and revokes\<close>

text \<open>
  Claim C8. For every object a statement can name (resolved in the session's context and
  present on the platform) and every principal \<open>G\<close>: GRANT SELECT on it to \<open>G\<close> followed
  by REVOKE SELECT on it from \<open>G\<close> both succeed, and afterwards the grants listed on the
  object hold no SELECT for \<open>G\<close>; the grants are those of before without that entry.
\<close>

theorem grant_then_revoke:
  assumes "resolve_existing k r s = Inr obj"
  shows "\<exists>s2. run [Grant SELECT k r G, Revoke SELECT k r G] s = (s2, None)
            \<and> (G, SELECT) \<notin> list_grants s2 obj
            \<and> grants s2 = grants s - {(SELECT, obj, G)}"
  using assms
  by (auto simp: exec_defs list_grants_def simp del: resolve.simps split: sum.splits if_splits)

theorem grant_then_revoke_witness:
  "resolve_existing TABLE [''jdoe'', ''sales'', ''sales_fact''] workshop
     = Inr (Table ''jdoe'' ''sales'' ''sales_fact'')
   \<and> (\<exists>s2. run [Grant SELECT TABLE [''jdoe'', ''sales'', ''sales_fact''] ''account users'',
                Revoke SELECT TABLE [''jdoe'', ''sales'', ''sales_fact''] ''account users''] workshop
              = (s2, None)
            \<and> (''account users'', SELECT) \<notin> list_grants s2 (Table ''jdoe'' ''sales'' ''sales_fact'')
            \<and> grants s2 = grants workshop - {(SELECT, Table ''jdoe'' ''sales'' ''sales_fact'', ''account users'')})"
proof -
  have r: "resolve_existing TABLE [''jdoe'', ''sales'', ''sales_fact''] workshop
     = Inr (Table ''jdoe'' ''sales'' ''sales_fact'')"
    by (simp add: exec_defs workshop_def provisioned_def)
  show ?thesis
    using grant_then_revoke [OF r, of "''account users''"] r by blast
qed

lemma unquoted_rejected:
  "\<not> list_all plain_identifier ts \<Longrightarrow> exec (Unquoted ts st) s = Inl PlatformError"
  by (simp add: require_def)

text \<open>
  Claim C9. For a user whose login is not the group name \<open>account users\<close>, on a platform
  that has the objects lab 4 names: the catalog-level grants of lab 4 go to the user and
  its catalog-level revokes name \<open>account users\<close>; at the end of the run USE_CATALOG and
  BROWSE on the catalog are still granted to the user; and the run goes through all its
  statements when the catalog name is a regular identifier (the SHOW GRANTS statements
  interpolate it without back quotes).
\<close>

theorem catalog_grants_outlive_lab4:
  assumes "catalog_name user_name = Inr cat"
    and "user_name \<noteq> ''account users''"
    and "lab4_ready cat s"
  shows "List.map_filter catalog_grant (lab4_statements cat user_name)
           = [(USE_CATALOG, user_name), (BROWSE, user_name)]
       \<and> List.map_filter catalog_revoke (lab4_statements cat user_name)
           = [(BROWSE, ''account users''), (USE_CATALOG, ''account users'')]
       \<and> (\<exists>s' e. run_lab4 user_name s = (s', e)
             \<and> (plain_identifier cat \<longrightarrow> e = None)
             \<and> (user_name, USE_CATALOG) \<in> list_grants s' (Catalog cat)
             \<and> (user_name, BROWSE) \<in> list_grants s' (Catalog cat))"
proof (intro conjI)
  show "List.map_filter catalog_grant (lab4_statements cat user_name)
           = [(USE_CATALOG, user_name), (BROWSE, user_name)]"
    by (simp add: lab4_statements_def List.map_filter_simps)
  show "List.map_filter catalog_revoke (lab4_statements cat user_name)
           = [(BROWSE, ''account users''), (USE_CATALOG, ''account users'')]"
    by (simp add: lab4_statements_def List.map_filter_simps)
  show "\<exists>s' e. run_lab4 user_name s = (s', e)
             \<and> (plain_identifier cat \<longrightarrow> e = None)
             \<and> (user_name, USE_CATALOG) \<in> list_grants s' (Catalog cat)
             \<and> (user_name, BROWSE) \<in> list_grants s' (Catalog cat)"
  proof (cases "plain_identifier cat")
    case True
    with assms show ?thesis
      by (simp add: run_lab4_def lab4_statements_def lab4_ready_def schema_name_def
          exec_defs list_grants_def)
  next
    case False
    with assms show ?thesis
      by (simp add: run_lab4_def lab4_statements_def lab4_ready_def schema_name_def
          exec_defs list_grants_def)
  qed
qed

theorem catalog_grants_outlive_lab4_witness:
  "catalog_name ''jdoe@example.com'' = Inr ''jdoe''
   \<and> ''jdoe@example.com'' \<noteq> ''account users''
   \<and> lab4_ready ''jdoe'' workshop
   \<and> plain_identifier ''jdoe''
   \<and> (\<exists>s'. run_lab4 ''jdoe@example.com'' workshop = (s', None)
             \<and> (''jdoe@example.com'', USE_CATALOG) \<in> list_grants s' (Catalog ''jdoe'')
             \<and> (''jdoe@example.com'', BROWSE) \<in> list_grants s' (Catalog ''jdoe''))"
proof -
  have a: "''jdoe@example.com'' \<noteq> ''account users''" by simp
  have b: "lab4_ready ''jdoe'' workshop"
    by (simp add: lab4_ready_def workshop_def provisioned_def schema_name_def)
  show ?thesis
    using catalog_grants_outlive_lab4 [OF catalog_name_jdoe a b] catalog_name_jdoe a b
      plain_jdoe
    by blast
qed

text \<open>
  With the login \<open>john-doe@example.com\<close> the run of lab 4 stops at its first SHOW GRANTS,
  after the grants and before the revokes.
\<close>

lemma lab4_unquoted_catalog:
  assumes "lab4_ready ''john-doe'' s"
  shows "snd (run_lab4 ''john-doe@example.com'' s) = Some PlatformError
       \<and> (''john-doe@example.com'', USE_CATALOG)
            \<in> list_grants (fst (run_lab4 ''john-doe@example.com'' s)) (Catalog ''john-doe'')"
proof -
  have c: "catalog_name ''john-doe@example.com'' = Inr ''john-doe''"
    by (simp add: catalog_name_def user_id_def index0_def)
  have n: "\<not> plain_identifier ''john-doe''"
    by (simp add: identifier_defs)
  from assms c n show ?thesis
    by (simp add: run_lab4_def lab4_statements_def lab4_ready_def schema_name_def
        exec_defs list_grants_def)
qed

section \<open>Lab 5: policies\<close>

lemmas lab5_defs = catalog_name_jdoe run_lab5_def lab5_statements_def nation_filter_policy_def
    filter_nation_function_def mask_address_function_def
    mask_address_policy_def schema_name_def exec_defs workshop_def provisioned_def

lemma after_lab5_simps:
  "schemas after_lab5 (''jdoe'', ''sales'') \<noteq> None"
  "sql_functions after_lab5 (''jdoe'', ''sales'', ''filter_nation'') = Some (RowPredicate filter_nation)"
  "sql_functions after_lab5 (''jdoe'', ''sales'', ''mask_address'') = Some (ColumnTransform mask_address)"
  "tables after_lab5 (''jdoe'', ''sales'', ''customers'') \<noteq> None"
  "tables after_lab5 (''jdoe'', ''sales'', ''suppliers'') \<noteq> None"
  "current_catalog after_lab5 = ''jdoe''"
  "current_schema after_lab5 = ''sales''"
  "policies after_lab5 =
     [(((''jdoe'', ''sales''), ''mask_address''),
        \<lparr>p_comment = ''Mask PII address information.'', p_kind = COLUMN_MASK,
         p_function = (''jdoe'', ''sales'', ''mask_address''), p_to = ''account users'',
         p_match = hasTagValue ''uc_pii'' ''address''\<rparr>),
      (((''jdoe'', ''sales''), ''nation_filter''),
        \<lparr>p_comment = ''Filter out nations for non-HR users'', p_kind = ROW_FILTER,
         p_function = (''jdoe'', ''sales'', ''filter_nation''), p_to = ''account users'',
         p_match = hasTag ''uc_geo''\<rparr>)]"
  "tags after_lab5 =
     [(Table ''jdoe'' ''sales'' ''suppliers'', Some ''n_name'', ''uc_geo'', []),
      (Table ''jdoe'' ''sales'' ''suppliers'', None, ''uc_geo'', []),
      (Table ''jdoe'' ''sales'' ''customers'', Some ''c_address'', ''uc_pii'', ''address'')]"
  by (simp_all add: after_lab5_def lab5_defs)





section \<open>Reads through row filters and column masks\<close>

lemma subseq_set_subset:
  assumes "subseq xs ys"
  shows "set xs \<subseteq> set ys"
proof
  fix x assume "x \<in> set xs"
  with assms obtain y where "y \<in> set ys" and "x = y" by (rule list_emb_set)
  then show "x \<in> set ys" by simp
qed

lemma apply_row_filter_subseq:
  "apply_row_filter s ses k d p rs = Inr rs' \<Longrightarrow> subseq rs' rs"
  by (auto simp: apply_row_filter_def split: policy_kind.splits option.splits udf.splits list.splits)

lemma visible_rows_subseq:
  "visible_rows s ses k d ps rs = Inr vis \<Longrightarrow> subseq vis rs"
proof (induction ps arbitrary: rs)
  case Nil
  then show ?case by simp
next
  case (Cons p ps)
  from Cons.prems obtain rs' where a: "apply_row_filter s ses k d p rs = Inr rs'"
    and b: "visible_rows s ses k d ps rs' = Inr vis"
    by (auto simp: bind_result_def split: sum.splits)
  from Cons.IH [OF b] apply_row_filter_subseq [OF a] show ?case
    using subseq_order.order_trans by blast
qed

lemma length_mask_cells: "length (mask_cells f m cs vs) = length vs"
  by (induction f m cs vs rule: mask_cells.induct) simp_all

lemma apply_column_mask_rowwise:
  assumes "apply_column_mask s ses k d p rs = Inr out"
  shows "\<exists>g. (\<forall>rs'. apply_column_mask s ses k d p rs' = Inr (map g rs'))
           \<and> (\<forall>r. length (g r) = length r)"
proof (cases "p_kind p")
  case ROW_FILTER
  then have "\<forall>rs'. apply_column_mask s ses k d p rs' = Inr (map id rs')"
    by (simp add: apply_column_mask_def)
  then show ?thesis by (intro exI [of _ id]) simp
next
  case COLUMN_MASK
  with assms obtain f where f: "sql_functions s (p_function p) = Some (ColumnTransform f)"
    by (auto simp: apply_column_mask_def split: option.splits udf.splits)
  let ?g = "mask_cells (f ses) (matched_columns s k (p_match p) (columns d)) (columns d)"
  from COLUMN_MASK f have "\<forall>rs'. apply_column_mask s ses k d p rs' = Inr (map ?g rs')"
    by (simp add: apply_column_mask_def)
  then show ?thesis by (intro exI [of _ ?g]) (simp add: length_mask_cells)
qed

lemma masked_rows_rowwise:
  "masked_rows s ses k d ps rs = Inr out \<Longrightarrow>
   \<exists>g. (\<forall>rs'. masked_rows s ses k d ps rs' = Inr (map g rs'))
        \<and> (\<forall>r. length (g r) = length r)"
proof (induction ps arbitrary: rs out)
  case Nil
  have "\<forall>rs'. masked_rows s ses k d [] rs' = Inr (map id rs')" by simp
  then show ?case by (intro exI [of _ id]) simp
next
  case (Cons p ps)
  from Cons.prems obtain mid where a: "apply_column_mask s ses k d p rs = Inr mid"
    and b: "masked_rows s ses k d ps mid = Inr out"
    by (auto simp: bind_result_def split: sum.splits)
  from apply_column_mask_rowwise [OF a] obtain h where
    h: "\<forall>rs'. apply_column_mask s ses k d p rs' = Inr (map h rs')" "\<forall>r. length (h r) = length r"
    by blast
  from Cons.IH [OF b] obtain g where
    g: "\<forall>rs'. masked_rows s ses k d ps rs' = Inr (map g rs')" "\<forall>r. length (g r) = length r"
    by blast
  from h g have "\<forall>rs'. masked_rows s ses k d (p # ps) rs' = Inr (map (g \<circ> h) rs')"
    by (simp add: bind_result_def)
  moreover from h g have "\<forall>r. length ((g \<circ> h) r) = length r" by simp
  ultimately show ?case by blast
qed

lemma matched_columns_frame [simp]:
  "matched_columns (s\<lparr>policies := x\<rparr>) k cm cols = matched_columns s k cm cols"
  by (simp add: matched_columns_def column_tags_def)

lemma policy_frame [simp]:
  "apply_row_filter (s\<lparr>policies := x\<rparr>) ses k d p rs = apply_row_filter s ses k d p rs"
  "apply_column_mask (s\<lparr>policies := x\<rparr>) ses k d p rs = apply_column_mask s ses k d p rs"
  by (simp_all add: apply_row_filter_def apply_column_mask_def
      split: policy_kind.splits option.splits udf.splits)

lemma visible_rows_frame:
  "visible_rows (s\<lparr>policies := x\<rparr>) ses k d ps rs = visible_rows s ses k d ps rs"
  by (induction ps arbitrary: rs) (simp_all add: bind_result_def split: sum.splits)

lemma masked_rows_frame:
  "masked_rows (s\<lparr>policies := x\<rparr>) ses k d ps rs = masked_rows s ses k d ps rs"
  by (induction ps arbitrary: rs) (simp_all add: bind_result_def split: sum.splits)

lemma visible_rows_no_filters:
  "visible_rows s ses k d (filter (\<lambda>p. p_kind p \<noteq> ROW_FILTER) ps) rs = Inr rs"
  by (induction ps) (auto simp: bind_result_def apply_row_filter_def split: policy_kind.splits)

lemma masked_rows_no_filters:
  "masked_rows s ses k d (filter (\<lambda>p. p_kind p \<noteq> ROW_FILTER) ps) rs
     = masked_rows s ses k d ps rs"
proof (induction ps arbitrary: rs)
  case Nil
  show ?case by simp
next
  case (Cons p ps)
  show ?case
  proof (cases "p_kind p")
    case ROW_FILTER
    then show ?thesis
      by (simp add: Cons.IH bind_result_def apply_column_mask_def)
  next
    case COLUMN_MASK
    then show ?thesis
      by (simp add: Cons.IH bind_result_def split: sum.splits)
  qed
qed

lemma table_policies_without_row_filters:
  "table_policies (without_row_filters s) ses k
     = filter (\<lambda>p. p_kind p \<noteq> ROW_FILTER) (table_policies s ses k)"
  by (cases k) (simp add: table_policies_def without_row_filters_def filter_map comp_def conj_commute)

lemma select_star_unfiltered:
  "select_star (without_row_filters s) ses k d =
     require (tables s k \<noteq> None) NotFoundError
       (bind_result (masked_rows s ses k d (table_policies s ses k) (rows d))
          (\<lambda>out. Inr (d\<lparr>rows := out\<rparr>)))"
  unfolding select_star_def table_policies_without_row_filters
  by (simp add: without_row_filters_def visible_rows_frame masked_rows_frame
      visible_rows_no_filters masked_rows_no_filters bind_result_def)

text \<open>
  Claim C6. For every state of the platform, session, table and stored contents: when
  the read of the table through the policies of its schema succeeds, the same read with
  the row filters taken away succeeds too, and the rows of the filtered read are rows of
  the unfiltered one, in the same order (a subsequence, hence a subset and no more in
  number). This holds for any row filter function, \<open>filter_nation\<close> bound by
  \<open>nation_filter\<close> among them.
\<close>

theorem row_filter_never_expands:
  assumes "select_star s ses k d = Inr out"
  shows "\<exists>out'. select_star (without_row_filters s) ses k d = Inr out'
            \<and> subseq (rows out) (rows out')
            \<and> set (rows out) \<subseteq> set (rows out')
            \<and> length (rows out) \<le> length (rows out')"
proof -
  from assms obtain vis outrows where t: "tables s k \<noteq> None"
    and v: "visible_rows s ses k d (table_policies s ses k) (rows d) = Inr vis"
    and m: "masked_rows s ses k d (table_policies s ses k) vis = Inr outrows"
    and o: "out = d\<lparr>rows := outrows\<rparr>"
    by (auto simp: select_star_def require_def bind_result_def split: if_splits sum.splits)
  from masked_rows_rowwise [OF m] obtain g where
    g: "\<forall>rs'. masked_rows s ses k d (table_policies s ses k) rs' = Inr (map g rs')"
    by blast
  from g m have outrows: "outrows = map g vis" by simp
  let ?out' = "d\<lparr>rows := map g (rows d)\<rparr>"
  from t g have "select_star (without_row_filters s) ses k d = Inr ?out'"
    by (simp add: select_star_unfiltered require_def bind_result_def)
  moreover from visible_rows_subseq [OF v] have s: "subseq (rows out) (rows ?out')"
    by (simp add: o outrows subseq_map)
  moreover from s have "set (rows out) \<subseteq> set (rows ?out')" by (rule subseq_set_subset)
  moreover from s have "length (rows out) \<le> length (rows ?out')" by (rule list_emb_length)
  ultimately show ?thesis by blast
qed

lemmas read_defs = select_star_def table_policies_def policy_applies_def apply_row_filter_def
  apply_column_mask_def matched_columns_def column_tags_def cell_def require_def bind_result_def
  without_row_filters_def

lemma suppliers_read:
  "select_star after_lab5 account_user (''jdoe'', ''sales'', ''suppliers'') suppliers_data
     = Inr (suppliers_data\<lparr>rows := [[Some ''Supplier#1'', Some ''CANADA'']]\<rparr>)"
  by (simp add: read_defs after_lab5_simps account_user_def suppliers_data_def
      filter_nation_def sql_in_def IS_ACCOUNT_GROUP_MEMBER_def)

lemma suppliers_read_admin:
  "select_star after_lab5 admin_user (''jdoe'', ''sales'', ''suppliers'') suppliers_data
     = Inr suppliers_data"
  by (simp add: read_defs after_lab5_simps admin_user_def suppliers_data_def
      filter_nation_def sql_in_def IS_ACCOUNT_GROUP_MEMBER_def)

theorem row_filter_never_expands_witness:
  "select_star after_lab5 account_user (''jdoe'', ''sales'', ''suppliers'') suppliers_data
     = Inr (suppliers_data\<lparr>rows := [[Some ''Supplier#1'', Some ''CANADA'']]\<rparr>)
   \<and> select_star (without_row_filters after_lab5) account_user
         (''jdoe'', ''sales'', ''suppliers'') suppliers_data = Inr suppliers_data
   \<and> subseq [[Some ''Supplier#1'', Some ''CANADA'']] (rows suppliers_data)"
proof -
  have u: "select_star (without_row_filters after_lab5) account_user
         (''jdoe'', ''sales'', ''suppliers'') suppliers_data = Inr suppliers_data"
    by (simp add: read_defs after_lab5_simps account_user_def suppliers_data_def)
  from row_filter_never_expands [OF suppliers_read] u suppliers_read show ?thesis
    by auto
qed

lemma select_star_schema:
  assumes "select_star s ses k d = Inr out"
  shows "columns out = columns d \<and> length ` set (rows out) \<subseteq> length ` set (rows d)"
proof -
  from assms obtain vis outrows where
        v: "visible_rows s ses k d (table_policies s ses k) (rows d) = Inr vis"
    and m: "masked_rows s ses k d (table_policies s ses k) vis = Inr outrows"
    and o: "out = d\<lparr>rows := outrows\<rparr>"
    by (auto simp: select_star_def require_def bind_result_def split: if_splits sum.splits)
  from masked_rows_rowwise [OF m] obtain g where
    g: "\<forall>rs'. masked_rows s ses k d (table_policies s ses k) rs' = Inr (map g rs')"
       "\<forall>r. length (g r) = length r"
    by blast
  from g m have outrows: "outrows = map g vis" by simp
  have "set vis \<subseteq> set (rows d)"
    using visible_rows_subseq [OF v] by (rule subseq_set_subset)
  with g(2) have "length ` set outrows \<subseteq> length ` set (rows d)"
    by (auto simp: outrows)
  with o show ?thesis by simp
qed

text \<open>
  Claim C7, as the code has it. For every address value (NULL included): to a member of
  \<open>hr_admin\<close> the mask returns the value unchanged; to anyone else it returns the constant
  \<open>XXX Masked Address\<close>, so the result differs from the input exactly when the input is
  not that constant. A read through the policies returns the columns of the table as
  they are declared, and rows of the widths stored; the mask maps a string to a string.
\<close>

theorem mask_address_behaviour:
  "(IS_ACCOUNT_GROUP_MEMBER ses ''hr_admin'' \<longrightarrow> mask_address ses address = address)
   \<and> (\<not> IS_ACCOUNT_GROUP_MEMBER ses ''hr_admin'' \<longrightarrow>
        mask_address ses address = Some ''XXX Masked Address'')
   \<and> ((mask_address ses address \<noteq> address)
        = (\<not> IS_ACCOUNT_GROUP_MEMBER ses ''hr_admin'' \<and> address \<noteq> Some ''XXX Masked Address''))
   \<and> (select_star s ses k d = Inr out \<longrightarrow>
        columns out = columns d \<and> length ` set (rows out) \<subseteq> length ` set (rows d))"
  using select_star_schema [of s ses k d out]
  by (auto simp: mask_address_def)

lemma customers_read:
  "select_star after_lab5 account_user (''jdoe'', ''sales'', ''customers'') customers_data
     = Inr (customers_data\<lparr>rows :=
              [[Some ''Customer#1'', Some ''XXX Masked Address''],
               [Some ''Customer#2'', Some ''XXX Masked Address''],
               [Some ''Customer#3'', Some ''XXX Masked Address'']]\<rparr>)"
  by (simp add: read_defs after_lab5_simps account_user_def customers_data_def
      mask_address_def IS_ACCOUNT_GROUP_MEMBER_def)

lemma customers_read_admin:
  "select_star after_lab5 admin_user (''jdoe'', ''sales'', ''customers'') customers_data
     = Inr customers_data"
  by (simp add: read_defs after_lab5_simps admin_user_def customers_data_def
      mask_address_def IS_ACCOUNT_GROUP_MEMBER_def)

theorem mask_address_behaviour_witness:
  "\<not> IS_ACCOUNT_GROUP_MEMBER account_user ''hr_admin''
   \<and> mask_address account_user (Some ''12 Main St'') = Some ''XXX Masked Address''
   \<and> IS_ACCOUNT_GROUP_MEMBER admin_user ''hr_admin''
   \<and> mask_address admin_user (Some ''12 Main St'') = Some ''12 Main St''
   \<and> select_star after_lab5 account_user (''jdoe'', ''sales'', ''customers'') customers_data
     = Inr (customers_data\<lparr>rows :=
              [[Some ''Customer#1'', Some ''XXX Masked Address''],
               [Some ''Customer#2'', Some ''XXX Masked Address''],
               [Some ''Customer#3'', Some ''XXX Masked Address'']]\<rparr>)
   \<and> columns (customers_data\<lparr>rows :=
              [[Some ''Customer#1'', Some ''XXX Masked Address''],
               [Some ''Customer#2'', Some ''XXX Masked Address''],
               [Some ''Customer#3'', Some ''XXX Masked Address'']]\<rparr>) = columns customers_data"
proof -
  have a: "\<not> IS_ACCOUNT_GROUP_MEMBER account_user ''hr_admin''"
    and b: "IS_ACCOUNT_GROUP_MEMBER admin_user ''hr_admin''"
    by (simp_all add: IS_ACCOUNT_GROUP_MEMBER_def account_user_def admin_user_def)
  from mask_address_behaviour [of account_user "Some ''12 Main St''" after_lab5
         "(''jdoe'', ''sales'', ''customers'')" customers_data
         "customers_data\<lparr>rows :=
              [[Some ''Customer#1'', Some ''XXX Masked Address''],
               [Some ''Customer#2'', Some ''XXX Masked Address''],
               [Some ''Customer#3'', Some ''XXX Masked Address'']]\<rparr>"]
       mask_address_behaviour [of admin_user "Some ''12 Main St''"]
       a b customers_read
  show ?thesis by simp
qed

text \<open>
  The claim as the specification words it has the mask return a value different from
  the input for every address: for a session outside \<open>hr_admin\<close>, the address
  \<open>XXX Masked Address\<close> comes back as it went in.
\<close>

theorem mask_address_counterexample:
  "\<not> IS_ACCOUNT_GROUP_MEMBER account_user ''hr_admin''
   \<and> mask_address account_user (Some ''XXX Masked Address'') = Some ''XXX Masked Address''"
  by (simp add: mask_address_def IS_ACCOUNT_GROUP_MEMBER_def account_user_def)

section \<open>Lab 3: surrogate keys of the fact table\<close>

lemma sales_key_select_row [simp]: "sales_key (select_row n j) = n"
  by (cases j) (simp add: select_row_def)

lemma sales_key_number_rows: "map sales_key (number_rows p) = [1..int (length p)]"
proof -
  have "map sales_key (number_rows p) = map fst (zip [1..int (length p)] p)"
    by (simp add: number_rows_def comp_def case_prod_beta)
  also have "\<dots> = [1..int (length p)]"
    by (rule map_fst_zip) simp
  finally show ?thesis .
qed

lemma sales_fact_is_result: "sales_fact_result snap (sales_fact snap)"
  unfolding sales_fact_def
  by (rule sales_fact_result.intros) simp_all

lemma sales_fact_result_keys:
  assumes "sales_fact_result snap out"
  shows "map sales_key out = [1..int (length (sales_join snap))]"
  using assms
proof cases
  case (1 p)
  from 1(2) have "length p = length (sales_join snap)" by (rule mset_eq_length)
  with 1(1) show ?thesis by (simp add: sales_key_number_rows)
qed

lemma sorted_arrangement_unique:
  assumes d: "distinct (map f xs)"
    and p: "mset p = mset xs" "sorted (map f p)"
    and q: "mset q = mset xs" "sorted (map f q)"
  shows "p = q"
proof -
  from p(1) have mp: "mset (map f p) = mset (map f xs)" by simp
  from q(1) have mq: "mset (map f q) = mset (map f xs)" by simp
  from d mp have dp: "distinct (map f p)" using mset_eq_imp_distinct_iff by blast
  from d mq have dq: "distinct (map f q)" using mset_eq_imp_distinct_iff by blast
  from p(1) q(1) have s: "set p = set q" by (metis mset_eq_setD)
  from dp have "inj_on f (set p)" by (simp add: distinct_map)
  with s have "inj_on f (set p \<union> set q)" by simp
  then show ?thesis
    using p(2) dp q(2) dq s by (rule map_sorted_distinct_set_unique)
qed

lemma sales_fact_result_unique:
  assumes "distinct (map order_by (sales_join snap))" and "sales_fact_result snap out"
  shows "out = sales_fact snap"
  using assms(2)
proof cases
  case (1 p)
  have "p = sort_key order_by (sales_join snap)"
    using assms(1) 1(2,3) by (rule sorted_arrangement_unique) simp_all
  with 1(1) show ?thesis by (simp add: sales_fact_def)
qed


lemma short_list_distinct: "length xs \<le> Suc 0 \<Longrightarrow> distinct xs"
  by (cases xs) auto

lemma at_most_one_match:
  assumes "distinct (map f xs)" and "\<And>x. length (g x) \<le> Suc 0"
  shows "length (concat (map (\<lambda>x. if sql_eq a (f x) then g x else []) xs)) \<le> Suc 0"
  using assms(1)
proof (induction xs)
  case Nil
  then show ?case by simp
next
  case (Cons x xs)
  show ?case
  proof (cases "sql_eq a (f x)")
    case False
    with Cons show ?thesis by simp
  next
    case True
    have "\<not> sql_eq a (f y)" if "y \<in> set xs" for y
    proof
      assume "sql_eq a (f y)"
      with True have "f y = f x"
        by (auto simp: sql_eq_def split: option.splits)
      moreover from Cons.prems have "f x \<notin> f ` set xs" by simp
      ultimately show False using that by (metis imageI)
    qed
    then have rest: "concat (map (\<lambda>x. if sql_eq a (f x) then g x else []) xs) = []"
      by simp
    from True assms(2) [of x] show ?thesis by (simp add: rest)
  qed
qed

lemma distinct_concat_keys:
  assumes "distinct (map key ls)"
    and "\<And>l. length (F l) \<le> Suc 0"
    and "\<And>l j. j \<in> set (F l) \<Longrightarrow> f j = key l"
  shows "distinct (map f (concat (map F ls)))"
  using assms(1)
proof (induction ls)
  case Nil
  then show ?case by simp
next
  case (Cons l ls)
  have "distinct (map f (F l))"
    using assms(2) [of l] by (intro short_list_distinct) simp
  moreover have "set (map f (F l)) \<inter> set (map f (concat (map F ls))) = {}"
  proof -
    have "set (map f (F l)) \<subseteq> {key l}" using assms(3) by auto
    moreover have "set (map f (concat (map F ls))) \<subseteq> key ` set ls"
      using assms(3) by auto
    moreover from Cons.prems have "key l \<notin> key ` set ls" by simp
    ultimately show ?thesis by blast
  qed
  moreover from Cons have "distinct (map f (concat (map F ls)))" by simp
  ultimately show ?case by simp
qed

lemma keys_unique_join:
  assumes "keys_unique snap"
  shows "distinct (map order_by (sales_join snap))"
proof -
  let ?F = "\<lambda>li.
     concat (map (\<lambda>od. if sql_eq (l_orderkey li) (o_orderkey od) then
       concat (map (\<lambda>cu. if sql_eq (o_custkey od) (c_custkey cu) then
         concat (map (\<lambda>su. if sql_eq (l_suppkey li) (s_suppkey su) then [(li, od, cu, su)] else [])
           (suppliers_rows snap)) else [])
         (customers_rows snap)) else [])
       (orders_rows snap))"
  have join: "sales_join snap = concat (map ?F (lineitem_rows snap))"
    by (simp add: sales_join_def)
  from assms have dl: "distinct (map (\<lambda>li. (l_orderkey li, l_linenumber li)) (lineitem_rows snap))"
    and dor: "distinct (map o_orderkey (orders_rows snap))"
    and dc: "distinct (map c_custkey (customers_rows snap))"
    and ds: "distinct (map s_suppkey (suppliers_rows snap))"
    by (simp_all add: keys_unique_def)
  have one: "length (?F li) \<le> Suc 0" for li
    by (intro at_most_one_match dor dc ds) simp
  have key: "order_by j = (l_orderkey li, l_linenumber li)" if "j \<in> set (?F li)" for li j
    using that by (auto simp: order_by_def split: if_splits)
  show ?thesis
    unfolding join using dl one key by (rule distinct_concat_keys)
qed

text \<open>
  Claim C4, as the code has it. For every snapshot: the stable sort is a result of the
  build; every result carries exactly the keys 1 to N in this order, N being the number
  of joined rows; and when the ORDER BY key is distinct over the joined rows, the build
  has one result only, so a re-run reproduces the assignment. The key is distinct over
  the joined rows whenever each table's key is unique in the table.
\<close>

theorem sales_key_assignment:
  "sales_fact_result snap (sales_fact snap)
   \<and> (\<forall>out. sales_fact_result snap out \<longrightarrow>
         map sales_key out = [1..int (length (sales_join snap))])
   \<and> (distinct (map order_by (sales_join snap)) \<longrightarrow>
         (\<forall>out. sales_fact_result snap out \<longrightarrow> out = sales_fact snap))
   \<and> (keys_unique snap \<longrightarrow> distinct (map order_by (sales_join snap)))"
  using sales_fact_is_result sales_fact_result_keys sales_fact_result_unique keys_unique_join
  by blast

lemmas snapshot_defs = sales_join_def sql_eq_def order_by_def select_row_def number_rows_def
  sales_fact_def upto.simps

lemma unique_snapshot_fact:
  "sales_fact unique_snapshot =
     [\<lparr>sales_key = 1, order_key = Some 1, lineitem_key = Some 1, customer_key = Some 5,
       supplier_key = Some 7, date_key = Some 10, sales_amount = Some 1000, quantity = Some 2\<rparr>,
      \<lparr>sales_key = 2, order_key = Some 1, lineitem_key = Some 2, customer_key = Some 5,
       supplier_key = Some 7, date_key = Some 10, sales_amount = Some 300, quantity = Some 3\<rparr>,
      \<lparr>sales_key = 3, order_key = Some 2, lineitem_key = Some 1, customer_key = Some 5,
       supplier_key = Some 7, date_key = Some 20, sales_amount = Some 500, quantity = Some 1\<rparr>]"
  by (simp add: snapshot_defs unique_snapshot_def)

theorem sales_key_assignment_witness:
  "keys_unique unique_snapshot
   \<and> distinct (map order_by (sales_join unique_snapshot))
   \<and> sales_fact_result unique_snapshot (sales_fact unique_snapshot)
   \<and> map sales_key (sales_fact unique_snapshot) = [1, 2, 3]
   \<and> length (sales_join unique_snapshot) = 3"
proof -
  have k: "keys_unique unique_snapshot"
    by (simp add: keys_unique_def unique_snapshot_def)
  have l: "length (sales_join unique_snapshot) = 3"
    by (simp add: snapshot_defs unique_snapshot_def)
  have m: "map sales_key (sales_fact unique_snapshot) = [1, 2, 3]"
    by (simp add: unique_snapshot_fact)
  from sales_key_assignment [of unique_snapshot] k l m show ?thesis by blast
qed

lemma tie_join:
  "sales_join tie_snapshot =
     [(\<lparr>l_orderkey = Some 1, l_linenumber = Some 1, l_suppkey = Some 7,
          l_extendedprice = Some 1000, l_quantity = Some 2\<rparr>,
       \<lparr>o_orderkey = Some 1, o_custkey = Some 5, o_orderdate = Some 10\<rparr>,
       \<lparr>c_custkey = Some 5\<rparr>, \<lparr>s_suppkey = Some 7\<rparr>),
      (\<lparr>l_orderkey = Some 1, l_linenumber = Some 1, l_suppkey = Some 7,
          l_extendedprice = Some 1000, l_quantity = Some 2\<rparr>,
       \<lparr>o_orderkey = Some 1, o_custkey = Some 5, o_orderdate = Some 20\<rparr>,
       \<lparr>c_custkey = Some 5\<rparr>, \<lparr>s_suppkey = Some 7\<rparr>)]"
  by (simp add: snapshot_defs tie_snapshot_def)

text \<open>
  The claim as the specification words it has every snapshot reproduce its assignment.
  With two stored orders of the same order key, two joined rows tie on the ORDER BY key:
  either may be numbered first, and the two fact tables differ.
\<close>

theorem sales_key_ties_counterexample:
  "sales_fact_result tie_snapshot [tie_row 1 10, tie_row 2 20]
   \<and> sales_fact_result tie_snapshot [tie_row 1 20, tie_row 2 10]
   \<and> [tie_row 1 10, tie_row 2 20] \<noteq> [tie_row 1 20, tie_row 2 10]"
proof (intro conjI)
  let ?li = "\<lparr>l_orderkey = Some 1, l_linenumber = Some 1, l_suppkey = Some 7,
          l_extendedprice = Some 1000, l_quantity = Some (2::int)\<rparr>"
  let ?o1 = "\<lparr>o_orderkey = Some 1, o_custkey = Some 5, o_orderdate = Some (10::int)\<rparr>"
  let ?o2 = "\<lparr>o_orderkey = Some 1, o_custkey = Some 5, o_orderdate = Some (20::int)\<rparr>"
  let ?j1 = "(?li, ?o1, \<lparr>c_custkey = Some 5\<rparr>, \<lparr>s_suppkey = Some 7\<rparr>)"
  let ?j2 = "(?li, ?o2, \<lparr>c_custkey = Some 5\<rparr>, \<lparr>s_suppkey = Some 7\<rparr>)"
  have a: "[tie_row 1 10, tie_row 2 20] = number_rows [?j1, ?j2]"
    by (simp add: tie_row_def number_rows_def select_row_def upto.simps)
  have b: "[tie_row 1 20, tie_row 2 10] = number_rows [?j2, ?j1]"
    by (simp add: tie_row_def number_rows_def select_row_def upto.simps)
  show "sales_fact_result tie_snapshot [tie_row 1 10, tie_row 2 20]"
    unfolding a by (rule sales_fact_result.intros) (simp_all add: tie_join order_by_def)
  show "sales_fact_result tie_snapshot [tie_row 1 20, tie_row 2 10]"
    unfolding b by (rule sales_fact_result.intros) (simp_all add: tie_join order_by_def)
  show "[tie_row 1 10, tie_row 2 20] \<noteq> [tie_row 1 20, tie_row 2 10]"
    by (simp add: tie_row_def)
qed

section \<open>Lab 3: the dropped table\<close>



lemma placeholder_unused_updates [simp]:
  "placeholder_unused (s\<lparr>catalogs := a\<rparr>) = placeholder_unused s"
  "placeholder_unused (s\<lparr>schemas := b\<rparr>) = placeholder_unused s"
  "placeholder_unused (s\<lparr>volumes := c\<rparr>) = placeholder_unused s"
  "placeholder_unused (s\<lparr>next_id := f\<rparr>) = placeholder_unused s"
  "placeholder_unused (s\<lparr>sql_functions := g\<rparr>) = placeholder_unused s"
  "placeholder_unused (s\<lparr>policies := h\<rparr>) = placeholder_unused s"
  "placeholder_unused (s\<lparr>tags := i\<rparr>) = placeholder_unused s"
  "placeholder_unused (s\<lparr>grants := j\<rparr>) = placeholder_unused s"
  "placeholder_unused (s\<lparr>current_catalog := k\<rparr>) = placeholder_unused s"
  "placeholder_unused (s\<lparr>current_schema := l\<rparr>) = placeholder_unused s"
  by (simp_all add: placeholder_unused_def)











lemma create_table_or_replace:
  "create_table OrReplace k fmt s =
     Inr (s\<lparr>tables := (tables s)(k \<mapsto>
                 (case tables s k of None \<Rightarrow> fresh_id s (next_id s) | Some e \<Rightarrow> fst e, fmt)),
            next_id := (case tables s k of None \<Rightarrow> Suc (next_id s) | Some e \<Rightarrow> next_id s)\<rparr>)"
  by (auto simp: create_table_def split: option.splits)









text \<open>
  With the login \<open>john-doe@example.com\<close> the run of lab 3 stops earlier, at the statement
  that builds \<open>sales_fact\<close>, and \<open>customers\<close> is still there.
\<close>

lemma lab3_unquoted_catalog:
  assumes "lab3_ready ''john-doe'' s"
  shows "snd (run_lab3 ''john-doe@example.com'' s) = Some PlatformError
       \<and> tables (fst (run_lab3 ''john-doe@example.com'' s))
            (''john-doe'', ''sales'', ''customers'') \<noteq> None"
proof -
  have c: "catalog_name ''john-doe@example.com'' = Inr ''john-doe''"
    by (simp add: catalog_name_def user_id_def index0_def)
  have n: "\<not> plain_identifier ''john-doe''"
    by (simp add: identifier_defs)
  from assms c n show ?thesis
    by (simp add: run_lab3_def lab3_statements_def lab3_ready_def lab3_sources_def
        schema_name_def bind_result_def require_def resolve_existing_def
        create_table_or_replace)
qed

end
